theory Spec2Isabelle
  imports Complex_Main
begin

section \<open>Numbers\<close>

text \<open>
  The Go sources compute with \<open>float64\<close>. A finite \<open>float64\<close> is the real number
  it denotes; the two zeros are one number here, and a zero that is divided by counts
  as \<open>+0\<close>. Beside the finite numbers there are \<open>+Inf\<close>, \<open>-Inf\<close> and \<open>NaN\<close>: Go
  yields them on overflow and on a division by zero and goes on, it does not panic.

  The statistics of the market analyzer and the amounts of the order lifecycle are
  computed below in exact arithmetic, with \<open>fdiv\<close> for the division that can meet a
  zero. Arbitrage detection and strategy evaluation test computed values against
  thresholds, so there every operation is the IEEE 754 binary64 one: the exact
  result, rounded to the nearest \<open>float64\<close> with ties to the even significand
  (\<open>round64\<close>).
\<close>

datatype float64 = Finite real | PosInf | NegInf | NaN

definition fdiv :: "real \<Rightarrow> real \<Rightarrow> float64" where
  "fdiv a b =
     (if b \<noteq> 0 then Finite (a / b)
      else if a > 0 then PosInf
      else if a < 0 then NegInf
      else NaN)"

text \<open>The nearest integer, a tie going to the even one.\<close>

definition round_even :: "real \<Rightarrow> int" where
  "round_even y =
     (let f = \<lfloor>y\<rfloor>; d = y - of_int f
      in if d < 1 / 2 then f else if d > 1 / 2 then f + 1 else if even f then f else f + 1)"

text \<open>
  Rounding of \<open>x\<close> in the binade of exponent \<open>e\<close>: the \<open>float64\<close> numbers there are
  the multiples of \<open>2 ^ (e - 52)\<close>. A result of \<open>2 ^ 1024\<close> or more is an overflow.
\<close>

definition round_at :: "int \<Rightarrow> real \<Rightarrow> float64" where
  "round_at e x =
     (let q = 2 powr of_int (e - 52);
          y = of_int (round_even (\<bar>x\<bar> / q)) * q
      in if y \<ge> 2 powr 1024 then (if x > 0 then PosInf else NegInf)
         else Finite (if x > 0 then y else - y))"

text \<open>
  \<open>round64\<close>: the exponent is that of \<open>x\<close>, and \<open>-1022\<close> for the subnormal numbers
  below \<open>2 ^ -1022\<close>.
\<close>

definition round64 :: "real \<Rightarrow> float64" where
  "round64 x = (if x = 0 then Finite 0 else round_at (max \<lfloor>log 2 \<bar>x\<bar>\<rfloor> (- 1022)) x)"

text \<open>
  The operations the two services use: the difference of two finite numbers, the
  quotient of a number by a finite one, the product of a number with a finite one,
  and the comparisons \<open>>=\<close> and \<open>>\<close>, which are false as soon as one side is \<open>NaN\<close>.
\<close>

definition f64_sub :: "real \<Rightarrow> real \<Rightarrow> float64" where
  "f64_sub a b = round64 (a - b)"

fun f64_div :: "float64 \<Rightarrow> real \<Rightarrow> float64" where
  "f64_div (Finite a) b =
     (if b \<noteq> 0 then round64 (a / b)
      else if a > 0 then PosInf
      else if a < 0 then NegInf
      else NaN)"
| "f64_div PosInf b = (if b < 0 then NegInf else PosInf)"
| "f64_div NegInf b = (if b < 0 then PosInf else NegInf)"
| "f64_div NaN b = NaN"

fun f64_mul :: "float64 \<Rightarrow> real \<Rightarrow> float64" where
  "f64_mul (Finite a) c = round64 (a * c)"
| "f64_mul PosInf c = (if c > 0 then PosInf else if c < 0 then NegInf else NaN)"
| "f64_mul NegInf c = (if c > 0 then NegInf else if c < 0 then PosInf else NaN)"
| "f64_mul NaN c = NaN"

fun f64_ge :: "float64 \<Rightarrow> float64 \<Rightarrow> bool" where
  "f64_ge NaN y = False"
| "f64_ge x NaN = False"
| "f64_ge PosInf y = True"
| "f64_ge x NegInf = True"
| "f64_ge NegInf y = False"
| "f64_ge (Finite a) PosInf = False"
| "f64_ge (Finite a) (Finite b) = (a \<ge> b)"

fun f64_gt :: "float64 \<Rightarrow> float64 \<Rightarrow> bool" where
  "f64_gt NaN y = False"
| "f64_gt x NaN = False"
| "f64_gt PosInf PosInf = False"
| "f64_gt PosInf y = True"
| "f64_gt NegInf y = False"
| "f64_gt (Finite a) NegInf = True"
| "f64_gt (Finite a) PosInf = False"
| "f64_gt (Finite a) (Finite b) = (a > b)"

text \<open>The constants \<open>0.1\<close> and \<open>0.8\<close> of the sources: the \<open>float64\<close> nearest to each.\<close>

definition lit_0_1 :: real where
  "lit_0_1 = 3602879701896397 / 2 ^ 55"

definition lit_0_8 :: real where
  "lit_0_8 = 3602879701896397 / 2 ^ 52"

section \<open>Market analyzer (services/market/market\_service.go)\<close>

text \<open>\<open>calculateAverage\<close>: 0 on the empty series, else the running sum over the length.\<close>

definition calculateAverage :: "real list \<Rightarrow> real" where
  "calculateAverage prices =
     (if length prices = 0 then 0
      else foldl (\<lambda>sum p. sum + p) 0 prices / real (length prices))"

text \<open>
  \<open>calculateStdDev\<close>: 0 on the empty series; else the running sum of the squared
  deviations from the average, divided by the length. This is all the source does:
  the quotient is returned as it is.
\<close>

definition calculateStdDev :: "real list \<Rightarrow> real" where
  "calculateStdDev prices =
     (if length prices = 0 then 0
      else let avg = calculateAverage prices
           in foldl (\<lambda>sum p. sum + (p - avg) * (p - avg)) 0 prices / real (length prices))"

text \<open>
  The loop of \<open>calculateVolatility\<close> that fills \<open>returns\<close>: for \<open>i = 1 .. len - 1\<close>,
  \<open>returns[i-1] = (prices[i] - prices[i-1]) / prices[i-1]\<close>.
\<close>

fun period_returns :: "real list \<Rightarrow> float64 list" where
  "period_returns (a # b # rest) = fdiv (b - a) a # period_returns (b # rest)"
| "period_returns _ = []"

fun finite_values :: "float64 list \<Rightarrow> real list option" where
  "finite_values [] = Some []"
| "finite_values (Finite x # xs) = map_option (\<lambda>ys. x # ys) (finite_values xs)"
| "finite_values (_ # xs) = None"

text \<open>
  \<open>calculateVolatility\<close>: 0 on fewer than two prices, else \<open>calculateStdDev\<close> of the
  returns. The result \<open>None\<close> stands for Go's \<open>NaN\<close>: when a price that is divided by
  is 0, that return is infinite or \<open>NaN\<close>, and the sums of \<open>calculateStdDev\<close> over
  such a series are \<open>NaN\<close>.
\<close>

definition calculateVolatility :: "real list \<Rightarrow> real option" where
  "calculateVolatility prices =
     (if length prices < 2 then Some 0
      else map_option calculateStdDev (finite_values (period_returns prices)))"

text \<open>
  What the specification asks of the two values: the population standard deviation
  of a series, the square root of the mean of the squared deviations from the mean.
\<close>

definition population_stddev_spec :: "real list \<Rightarrow> real" where
  "population_stddev_spec xs =
     sqrt ((\<Sum>x\<leftarrow>xs. (x - sum_list xs / real (length xs))\<^sup>2) / real (length xs))"

section \<open>Price service (internal/services/price/price\_service.go)\<close>

text \<open>
  \<open>models.Price\<close> and \<open>models.Item\<close>, with times as numbers. The column
  \<open>CreatedAt\<close>, which only the ORM fills, and the descriptive columns of an item that
  no function here reads are left out.
\<close>

record Price =
  p_ID :: nat
  p_ItemID :: nat
  p_Platform :: string
  p_Price :: real
  p_Volume :: int
  p_Currency :: string
  p_Timestamp :: nat

record Item =
  it_ID :: nat
  it_Name :: string
  it_MarketName :: string

text \<open>
  A table is the list of its rows in insertion order. \<open>db.Create\<close> on a row whose
  primary key is 0 lets the database choose a fresh key; on a row that brings its
  key it inserts under that key, and fails if the key is taken. The fresh key is
  taken to be one above the largest key of the table, and the message of the failure,
  which the database driver words, to be gorm's; nothing below depends on either. A
  price that names no currency is stored with the column's default, \<open>USD\<close>.
\<close>

definition fresh_id :: "nat list \<Rightarrow> nat" where
  "fresh_id ids = Suc (foldr max ids 0)"

definition default_currency :: "Price \<Rightarrow> Price" where
  "default_currency price =
     (if p_Currency price = [] then price\<lparr>p_Currency := ''USD''\<rparr> else price)"

definition SavePrice :: "Price \<Rightarrow> Price list \<Rightarrow> string option \<times> Price \<times> Price list" where
  "SavePrice price prices =
     (if p_ID price = 0 then
        (let price' = (default_currency price)\<lparr>p_ID := fresh_id (map p_ID prices)\<rparr>
         in (None, price', prices @ [price']))
      else if p_ID price \<in> set (map p_ID prices) then
        (Some ''duplicated key not allowed'', price, prices)
      else (None, default_currency price, prices @ [default_currency price]))"

text \<open>The triple that identifies an observation in the specification.\<close>

definition same_observation :: "Price \<Rightarrow> Price \<Rightarrow> bool" where
  "same_observation a b \<longleftrightarrow>
     p_ItemID a = p_ItemID b \<and> p_Platform a = p_Platform b \<and> p_Timestamp a = p_Timestamp b"

record ArbitrageOpportunity =
  ao_Item :: Item
  ao_BuyPlatform :: string
  ao_SellPlatform :: string
  ao_BuyPrice :: real
  ao_SellPrice :: real
  ao_Profit :: float64
  ao_ProfitPercent :: float64

text \<open>
  A Go map is an association list with distinct keys; the order of the list is the
  order in which \<open>range\<close> happens to visit the map, which Go leaves open. The body
  of the inner loop of \<open>GetArbitrageOpportunities\<close>:
\<close>

definition arbitrage_pair ::
  "Item \<Rightarrow> float64 \<Rightarrow> string \<times> Price \<Rightarrow> string \<times> Price \<Rightarrow> ArbitrageOpportunity list" where
  "arbitrage_pair item minProfitPercent e1 e2 =
     (case e1 of (platform1, price1) \<Rightarrow> case e2 of (platform2, price2) \<Rightarrow>
        if platform1 \<noteq> platform2 \<and> p_Price price1 < p_Price price2 then
          (let profit = f64_sub (p_Price price2) (p_Price price1);
               profitPercent = f64_mul (f64_div profit (p_Price price1)) 100
           in if f64_ge profitPercent minProfitPercent then
                [\<lparr>ao_Item = item, ao_BuyPlatform = platform1, ao_SellPlatform = platform2,
                  ao_BuyPrice = p_Price price1, ao_SellPrice = p_Price price2,
                  ao_Profit = profit, ao_ProfitPercent = profitPercent\<rparr>]
              else [])
        else [])"

text \<open>The two nested loops over the latest prices of one item.\<close>

definition find_arbitrage ::
  "Item \<Rightarrow> (string \<times> Price) list \<Rightarrow> float64 \<Rightarrow> ArbitrageOpportunity list" where
  "find_arbitrage item prices minProfitPercent =
     concat (map (\<lambda>e1. concat (map (\<lambda>e2. arbitrage_pair item minProfitPercent e1 e2) prices))
       prices)"

text \<open>
  The loop over the items. \<open>latest\<close> is what \<open>GetLatestPrices\<close> answers for an item
  id: an error or the map from platform to latest price.
\<close>

fun arbitrage_items ::
  "(nat \<Rightarrow> string + (string \<times> Price) list) \<Rightarrow> float64 \<Rightarrow> Item list \<Rightarrow>
   ArbitrageOpportunity list \<Rightarrow> ArbitrageOpportunity list" where
  "arbitrage_items latest minProfitPercent [] opportunities = opportunities"
| "arbitrage_items latest minProfitPercent (item # items) opportunities =
     (case latest (it_ID item) of
        Inl err \<Rightarrow> arbitrage_items latest minProfitPercent items opportunities
      | Inr prices \<Rightarrow>
          if length prices < 2 then arbitrage_items latest minProfitPercent items opportunities
          else arbitrage_items latest minProfitPercent items
                 (opportunities @ find_arbitrage item prices minProfitPercent))"

text \<open>\<open>all_items\<close> is the answer of \<open>db.Find(&items)\<close>.\<close>

definition GetArbitrageOpportunities ::
  "string + Item list \<Rightarrow> (nat \<Rightarrow> string + (string \<times> Price) list) \<Rightarrow> float64 \<Rightarrow>
   string + ArbitrageOpportunity list" where
  "GetArbitrageOpportunities all_items latest minProfitPercent =
     (case all_items of
        Inl err \<Rightarrow> Inl err
      | Inr items \<Rightarrow> Inr (arbitrage_items latest minProfitPercent items []))"

section \<open>Strategy evaluation (internal/services/trading/trading\_service.go)\<close>

record Strategy =
  st_ID :: nat
  st_UserID :: nat
  st_ItemID :: nat
  st_BuyPrice :: real
  st_SellPrice :: real
  st_MaxQuantity :: int
  st_IsActive :: bool

text \<open>\<open>TradeSignal\<close> without \<open>Reason\<close>, a message formatted for the log.\<close>

record TradeSignal =
  ts_ItemID :: nat
  ts_Platform :: string
  ts_Action :: string
  ts_Price :: real
  ts_Confidence :: real

text \<open>
  The first loop of \<open>analyzePrices\<close>; the state is
  \<open>(minPrice, minPlatform, maxPrice, maxPlatform)\<close>.
\<close>

definition scan_price ::
  "real \<times> string \<times> real \<times> string \<Rightarrow> string \<times> Price \<Rightarrow> real \<times> string \<times> real \<times> string" where
  "scan_price acc e =
     (case acc of (minPrice, minPlatform, maxPrice, maxPlatform) \<Rightarrow>
      case e of (platform, price) \<Rightarrow>
        (if p_Price price < minPrice then p_Price price else minPrice,
         if p_Price price < minPrice then platform else minPlatform,
         if p_Price price > maxPrice then p_Price price else maxPrice,
         if p_Price price > maxPrice then platform else maxPlatform))"

definition analyzePrices :: "(string \<times> Price) list \<Rightarrow> Strategy \<Rightarrow> TradeSignal list" where
  "analyzePrices prices strategy =
     (case foldl scan_price (999999, '''', 0, '''') prices of
        (minPrice, minPlatform, maxPrice, maxPlatform) \<Rightarrow>
          (let priceDiff = f64_sub maxPrice minPrice
           in if f64_gt priceDiff (Finite 5) \<and>
                 f64_gt (f64_div priceDiff minPrice) (Finite lit_0_1) then
                (if minPrice \<le> st_BuyPrice strategy then
                   [\<lparr>ts_ItemID = st_ItemID strategy, ts_Platform = minPlatform,
                     ts_Action = ''buy'', ts_Price = minPrice, ts_Confidence = lit_0_8\<rparr>]
                 else []) @
                (if maxPrice \<ge> st_SellPrice strategy then
                   [\<lparr>ts_ItemID = st_ItemID strategy, ts_Platform = maxPlatform,
                     ts_Action = ''sell'', ts_Price = maxPrice, ts_Confidence = lit_0_8\<rparr>]
                 else [])
              else []))"

subsection \<open>The emission test and the emitted value of the inner loop, named\<close>

definition profit_percent :: "real \<Rightarrow> real \<Rightarrow> float64" where
  "profit_percent buy sell = f64_mul (f64_div (f64_sub sell buy) buy) 100"

definition emits :: "float64 \<Rightarrow> (string \<times> Price) \<times> (string \<times> Price) \<Rightarrow> bool" where
  "emits m z \<longleftrightarrow>
     fst (fst z) \<noteq> fst (snd z) \<and> p_Price (snd (fst z)) < p_Price (snd (snd z)) \<and>
     f64_ge (profit_percent (p_Price (snd (fst z))) (p_Price (snd (snd z)))) m"

definition opportunity ::
  "Item \<Rightarrow> (string \<times> Price) \<times> (string \<times> Price) \<Rightarrow> ArbitrageOpportunity" where
  "opportunity item z =
     \<lparr>ao_Item = item, ao_BuyPlatform = fst (fst z), ao_SellPlatform = fst (snd z),
      ao_BuyPrice = p_Price (snd (fst z)), ao_SellPrice = p_Price (snd (snd z)),
      ao_Profit = f64_sub (p_Price (snd (snd z))) (p_Price (snd (fst z))),
      ao_ProfitPercent = profit_percent (p_Price (snd (fst z))) (p_Price (snd (snd z)))\<rparr>"

text \<open>What the loop over the items adds for one item.\<close>

definition item_block ::
  "(nat \<Rightarrow> string + (string \<times> Price) list) \<Rightarrow> float64 \<Rightarrow> Item \<Rightarrow> ArbitrageOpportunity list" where
  "item_block latest m item =
     (case latest (it_ID item) of Inl err \<Rightarrow> [] | Inr prices \<Rightarrow> find_arbitrage item prices m)"

subsection \<open>Concrete price data used in the examples\<close>

definition quote :: "nat \<Rightarrow> string \<Rightarrow> real \<Rightarrow> Price" where
  "quote i platform x =
     \<lparr>p_ID = i, p_ItemID = 1, p_Platform = platform, p_Price = x, p_Volume = 3,
      p_Currency = ''USD'', p_Timestamp = 1000\<rparr>"

definition prices_AB :: "(string \<times> Price) list" where
  "prices_AB = [(''A'', quote 1 ''A'' 100), (''B'', quote 2 ''B'' 112)]"

definition prices_near :: "(string \<times> Price) list" where
  "prices_near = [(''buff'', quote 1 ''buff'' 10), (''youpin'', quote 2 ''youpin'' 12)]"

definition prices_far :: "(string \<times> Price) list" where
  "prices_far = [(''buff'', quote 1 ''buff'' 100), (''youpin'', quote 2 ''youpin'' 120)]"

definition strategy_wide :: Strategy where
  "strategy_wide =
     \<lparr>st_ID = 1, st_UserID = 1, st_ItemID = 1, st_BuyPrice = 100, st_SellPrice = 1,
      st_MaxQuantity = 1, st_IsActive = True\<rparr>"

definition item_AK :: Item where
  "item_AK = \<lparr>it_ID = 1, it_Name = ''AK-47'', it_MarketName = ''AK-47 | Redline''\<rparr>"

definition item_AWP :: Item where
  "item_AWP = \<lparr>it_ID = 2, it_Name = ''AWP'', it_MarketName = ''AWP | Asiimov''\<rparr>"

section \<open>Order lifecycle (csgo2-trading-bot/backend/services/trading/trading\_service.go)\<close>

text \<open>
  \<open>models.Order\<close>, \<open>models.Inventory\<close> and \<open>models.Transaction\<close> with the
  columns the service reads or writes; times are numbers and an unset \<open>*time.Time\<close>
  is \<open>None\<close>. The database is the three tables, each the list of its live rows in
  insertion order. \<open>gorm.Model\<close> gives every table a soft-delete column that every
  query filters on, so a deleted row is gone for all the code below: deletion
  removes the row from the list.
\<close>

record Order =
  o_ID :: nat
  o_UserID :: nat
  o_ItemID :: nat
  o_Type :: string
  o_Status :: string
  o_Price :: real
  o_Quantity :: int
  o_Platform :: string
  o_ExecutedAt :: "nat option"
  o_FailedReason :: string

record Inventory =
  i_ID :: nat
  i_UserID :: nat
  i_ItemID :: nat
  i_Quantity :: int
  i_BuyPrice :: real
  i_Platform :: string
  i_AcquiredAt :: nat
  i_Tradable :: bool
  i_Locked :: bool

record Transaction =
  t_ID :: nat
  t_UserID :: nat
  t_OrderID :: nat
  t_Type :: string
  t_Amount :: real
  t_Fee :: real
  t_Profit :: real
  t_Platform :: string
  t_CompletedAt :: nat

record database =
  orders :: "Order list"
  inventories :: "Inventory list"
  transactions :: "Transaction list"

record TradingConfig =
  BuffAPI_Enabled :: bool
  YouPin_Enabled :: bool

text \<open>
  Where the source tests the error of a database statement, the function takes the
  answer of that statement as a parameter (\<open>None\<close>: it succeeded, \<open>Some msg\<close>: it
  failed and changed nothing). A statement whose error the source drops is taken to
  succeed.
\<close>

definition create_order :: "string option \<Rightarrow> Order \<Rightarrow> database \<Rightarrow> string option \<times> Order \<times> database" where
  "create_order create_err order db =
     (case create_err of
        Some err \<Rightarrow> (Some err, order, db)
      | None \<Rightarrow>
          (let order' = order\<lparr>o_ID := fresh_id (map o_ID (orders db))\<rparr>
           in (None, order', db\<lparr>orders := orders db @ [order']\<rparr>)))"

text \<open>\<open>db.Save\<close>: all columns of the row with the order's id are overwritten; a row that does
  not exist is inserted.\<close>

definition save_order :: "Order \<Rightarrow> database \<Rightarrow> database" where
  "save_order order db =
     (if o_ID order \<in> set (map o_ID (orders db)) then
        db\<lparr>orders := map (\<lambda>row. if o_ID row = o_ID order then order else row) (orders db)\<rparr>
      else db\<lparr>orders := orders db @ [order]\<rparr>)"

definition find_order :: "nat \<Rightarrow> database \<Rightarrow> Order option" where
  "find_order orderID db = find (\<lambda>row. o_ID row = orderID) (orders db)"

definition checkUserBalance :: "nat \<Rightarrow> real \<Rightarrow> bool" where
  "checkUserBalance userID amount = True"

definition checkInventory :: "nat \<Rightarrow> nat \<Rightarrow> int \<Rightarrow> database \<Rightarrow> bool" where
  "checkInventory userID itemID quantity db =
     (length (filter (\<lambda>row. i_UserID row = userID \<and> i_ItemID row = itemID \<and>
                            i_Quantity row \<ge> quantity \<and> i_Locked row = False)
        (inventories db)) > 0)"

definition lockInventory :: "string option \<Rightarrow> nat \<Rightarrow> nat \<Rightarrow> int \<Rightarrow> database \<Rightarrow> string option \<times> database" where
  "lockInventory lock_err userID itemID quantity db =
     (case lock_err of
        Some err \<Rightarrow> (Some err, db)
      | None \<Rightarrow>
          (None, db\<lparr>inventories :=
             map (\<lambda>row. if i_UserID row = userID \<and> i_ItemID row = itemID
                         then row\<lparr>i_Locked := True\<rparr> else row) (inventories db)\<rparr>))"

definition unlockInventory :: "nat \<Rightarrow> nat \<Rightarrow> int \<Rightarrow> database \<Rightarrow> database" where
  "unlockInventory userID itemID quantity db =
     db\<lparr>inventories :=
       map (\<lambda>row. if i_UserID row = userID \<and> i_ItemID row = itemID
                   then row\<lparr>i_Locked := False\<rparr> else row) (inventories db)\<rparr>"

definition addToInventory :: "nat \<Rightarrow> Order \<Rightarrow> database \<Rightarrow> database" where
  "addToInventory now order db =
     db\<lparr>inventories := inventories db @
       [\<lparr>i_ID = fresh_id (map i_ID (inventories db)), i_UserID = o_UserID order,
         i_ItemID = o_ItemID order, i_Quantity = o_Quantity order, i_BuyPrice = o_Price order,
         i_Platform = o_Platform order, i_AcquiredAt = now, i_Tradable = True,
         i_Locked = False\<rparr>]\<rparr>"

definition removeFromInventory :: "Order \<Rightarrow> database \<Rightarrow> database" where
  "removeFromInventory order db =
     db\<lparr>inventories :=
       filter (\<lambda>row. \<not> (i_UserID row = o_UserID order \<and> i_ItemID row = o_ItemID order))
         (inventories db)\<rparr>"

text \<open>
  The query of \<open>recordTransaction\<close> scans the column \<open>buy_price\<close> of the matching
  rows into one \<open>float64\<close> that starts at 0: each row overwrites it, so it ends as
  the value of the last row, and stays 0 when no row matches.
\<close>

definition scan_buy_price :: "nat \<Rightarrow> nat \<Rightarrow> database \<Rightarrow> real" where
  "scan_buy_price userID itemID db =
     foldl (\<lambda>buyPrice row. i_BuyPrice row) 0
       (filter (\<lambda>row. i_UserID row = userID \<and> i_ItemID row = itemID) (inventories db))"

definition recordTransaction :: "nat \<Rightarrow> Order \<Rightarrow> database \<Rightarrow> database" where
  "recordTransaction now order db =
     (let amount = o_Price order * real_of_int (o_Quantity order);
          fee = amount * (25 / 1000);
          profit =
            (if o_Type order = ''sell'' then
               (o_Price order - scan_buy_price (o_UserID order) (o_ItemID order) db)
                 * real_of_int (o_Quantity order) - fee
             else 0)
      in db\<lparr>transactions := transactions db @
           [\<lparr>t_ID = fresh_id (map t_ID (transactions db)), t_UserID = o_UserID order,
             t_OrderID = o_ID order, t_Type = o_Type order, t_Amount = amount, t_Fee = fee,
             t_Profit = profit, t_Platform = o_Platform order, t_CompletedAt = now\<rparr>]\<rparr>)"

text \<open>The platform calls, as the source has them: each returns \<open>nil\<close>.\<close>

definition executeBuffBuy :: "Order \<Rightarrow> string option" where "executeBuffBuy order = None"
definition executeBuffSell :: "Order \<Rightarrow> string option" where "executeBuffSell order = None"
definition executeYouPinBuy :: "Order \<Rightarrow> string option" where "executeYouPinBuy order = None"
definition executeYouPinSell :: "Order \<Rightarrow> string option" where "executeYouPinSell order = None"
definition executeSteamBuy :: "Order \<Rightarrow> string option" where "executeSteamBuy order = None"
definition executeSteamSell :: "Order \<Rightarrow> string option" where "executeSteamSell order = None"

text \<open>
  \<open>CreateBuyOrder\<close> and \<open>CreateSellOrder\<close> return the error or the stored order,
  and the database after the call. Each ends by starting \<open>executeBuyOrder\<close> or
  \<open>executeSellOrder\<close> on the order in a goroutine of its own; that run is a later
  step on the database and is modelled by the two functions below, applied to the
  order the creation returned.
\<close>

definition CreateBuyOrder ::
  "string option \<Rightarrow> nat \<Rightarrow> nat \<Rightarrow> real \<Rightarrow> int \<Rightarrow> string \<Rightarrow> database \<Rightarrow> (string + Order) \<times> database" where
  "CreateBuyOrder create_err userID itemID price quantity platform db =
     (let totalCost = price * real_of_int quantity
      in if \<not> checkUserBalance userID totalCost then (Inl ''insufficient balance'', db)
         else
           (case create_order create_err
                   \<lparr>o_ID = 0, o_UserID = userID, o_ItemID = itemID, o_Type = ''buy'',
                    o_Status = ''pending'', o_Price = price, o_Quantity = quantity,
                    o_Platform = platform, o_ExecutedAt = None, o_FailedReason = ''''\<rparr> db of
              (Some err, order, db') \<Rightarrow> (Inl err, db')
            | (None, order, db') \<Rightarrow> (Inr order, db')))"

definition CreateSellOrder ::
  "string option \<Rightarrow> string option \<Rightarrow> nat \<Rightarrow> nat \<Rightarrow> real \<Rightarrow> int \<Rightarrow> string \<Rightarrow> database \<Rightarrow>
   (string + Order) \<times> database" where
  "CreateSellOrder lock_err create_err userID itemID price quantity platform db =
     (if \<not> checkInventory userID itemID quantity db then (Inl ''insufficient inventory'', db)
      else
        (case lockInventory lock_err userID itemID quantity db of
           (Some err, db1) \<Rightarrow> (Inl err, db1)
         | (None, db1) \<Rightarrow>
             (case create_order create_err
                     \<lparr>o_ID = 0, o_UserID = userID, o_ItemID = itemID, o_Type = ''sell'',
                      o_Status = ''pending'', o_Price = price, o_Quantity = quantity,
                      o_Platform = platform, o_ExecutedAt = None, o_FailedReason = ''''\<rparr> db1 of
                (Some err, order, db2) \<Rightarrow> (Inl err, unlockInventory userID itemID quantity db2)
              | (None, order, db2) \<Rightarrow> (Inr order, db2))))"

definition CancelOrder :: "string option \<Rightarrow> nat \<Rightarrow> nat \<Rightarrow> database \<Rightarrow> string option \<times> database" where
  "CancelOrder save_err orderID userID db =
     (case find_order orderID db of
        None \<Rightarrow> (Some ''record not found'', db)
      | Some order \<Rightarrow>
          if o_UserID order \<noteq> userID then (Some ''unauthorized'', db)
          else if o_Status order \<noteq> ''pending'' then (Some ''order cannot be cancelled'', db)
          else
            (let db1 = (if o_Type order = ''sell''
                        then unlockInventory (o_UserID order) (o_ItemID order) (o_Quantity order) db
                        else db)
             in case save_err of
                  Some err \<Rightarrow> (Some err, db1)
                | None \<Rightarrow> (None, save_order (order\<lparr>o_Status := ''cancelled''\<rparr>) db1)))"

definition executeBuyOrder :: "TradingConfig \<Rightarrow> nat \<Rightarrow> Order \<Rightarrow> database \<Rightarrow> Order \<times> database" where
  "executeBuyOrder config now order db =
     (let err =
            (if o_Platform order = ''buff'' then
               (if BuffAPI_Enabled config then executeBuffBuy order else None)
             else if o_Platform order = ''youpin'' then
               (if YouPin_Enabled config then executeYouPinBuy order else None)
             else if o_Platform order = ''steam'' then executeSteamBuy order
             else Some ''unsupported platform'')
      in case err of
           Some msg \<Rightarrow>
             (let order1 = order\<lparr>o_Status := ''failed'', o_FailedReason := msg\<rparr>
              in (order1, save_order order1 db))
         | None \<Rightarrow>
             (let order1 = order\<lparr>o_Status := ''completed'', o_ExecutedAt := Some now\<rparr>
              in (order1, save_order order1 (recordTransaction now order1 (addToInventory now order1 db)))))"

definition executeSellOrder :: "TradingConfig \<Rightarrow> nat \<Rightarrow> Order \<Rightarrow> database \<Rightarrow> Order \<times> database" where
  "executeSellOrder config now order db =
     (let err =
            (if o_Platform order = ''buff'' then
               (if BuffAPI_Enabled config then executeBuffSell order else None)
             else if o_Platform order = ''youpin'' then
               (if YouPin_Enabled config then executeYouPinSell order else None)
             else if o_Platform order = ''steam'' then executeSteamSell order
             else Some ''unsupported platform'')
      in case err of
           Some msg \<Rightarrow>
             (let order1 = order\<lparr>o_Status := ''failed'', o_FailedReason := msg\<rparr>
              in (order1,
                  save_order order1
                    (unlockInventory (o_UserID order1) (o_ItemID order1) (o_Quantity order1) db)))
         | None \<Rightarrow>
             (let order1 = order\<lparr>o_Status := ''completed'', o_ExecutedAt := Some now\<rparr>
              in (order1,
                  save_order order1 (recordTransaction now order1 (removeFromInventory order1 db)))))"

section \<open>Order creation handlers (csgo2-trading-bot/backend/api)\<close>

text \<open>
  The request body of \<open>CreateBuyOrder\<close> and \<open>CreateSellOrder\<close> after JSON decoding,
  and its binding tags: \<open>required\<close> refuses the zero value of the field's type,
  \<open>min=n\<close> refuses a number below \<open>n\<close>.
\<close>

record OrderRequest =
  rq_ItemID :: nat
  rq_Price :: real
  rq_Quantity :: int
  rq_Platform :: string

definition bind_order_request :: "OrderRequest \<Rightarrow> bool" where
  "bind_order_request req \<longleftrightarrow>
     rq_ItemID req \<noteq> 0 \<and>
     (rq_Price req \<noteq> 0 \<and> rq_Price req \<ge> 0) \<and>
     (rq_Quantity req \<noteq> 0 \<and> rq_Quantity req \<ge> 1) \<and>
     rq_Platform req \<noteq> ''''"

datatype response = Created Order | BadRequest | InternalServerError string

definition CreateBuyOrder_handler ::
  "string option \<Rightarrow> nat \<Rightarrow> OrderRequest \<Rightarrow> database \<Rightarrow> response \<times> database" where
  "CreateBuyOrder_handler create_err userID req db =
     (if \<not> bind_order_request req then (BadRequest, db)
      else
        (case CreateBuyOrder create_err userID (rq_ItemID req) (rq_Price req) (rq_Quantity req)
                (rq_Platform req) db of
           (Inl err, db') \<Rightarrow> (InternalServerError err, db')
         | (Inr order, db') \<Rightarrow> (Created order, db')))"

definition CreateSellOrder_handler ::
  "string option \<Rightarrow> string option \<Rightarrow> nat \<Rightarrow> OrderRequest \<Rightarrow> database \<Rightarrow> response \<times> database" where
  "CreateSellOrder_handler lock_err create_err userID req db =
     (if \<not> bind_order_request req then (BadRequest, db)
      else
        (case CreateSellOrder lock_err create_err userID (rq_ItemID req) (rq_Price req)
                (rq_Quantity req) (rq_Platform req) db of
           (Inl err, db') \<Rightarrow> (InternalServerError err, db')
         | (Inr order, db') \<Rightarrow> (Created order, db')))"

subsection \<open>Concrete trading data used in the examples\<close>

definition holding :: "int \<Rightarrow> bool \<Rightarrow> Inventory" where
  "holding quantity locked =
     \<lparr>i_ID = 1, i_UserID = 1, i_ItemID = 7, i_Quantity = quantity, i_BuyPrice = 50,
      i_Platform = ''steam'', i_AcquiredAt = 100, i_Tradable = True, i_Locked = locked\<rparr>"

definition db_holding :: "int \<Rightarrow> bool \<Rightarrow> database" where
  "db_holding quantity locked =
     \<lparr>orders = [], inventories = [holding quantity locked], transactions = []\<rparr>"

definition db_empty :: database where
  "db_empty = \<lparr>orders = [], inventories = [], transactions = []\<rparr>"

definition sell_order :: "nat \<Rightarrow> string \<Rightarrow> string \<Rightarrow> Order" where
  "sell_order i platform status =
     \<lparr>o_ID = i, o_UserID = 1, o_ItemID = 7, o_Type = ''sell'', o_Status = status,
      o_Price = 80, o_Quantity = 1, o_Platform = platform, o_ExecutedAt = None,
      o_FailedReason = ''''\<rparr>"

definition config_on :: TradingConfig where
  "config_on = \<lparr>BuffAPI_Enabled = True, YouPin_Enabled = True\<rparr>"

definition db_pending :: database where
  "db_pending =
     \<lparr>orders = [sell_order 1 ''steam'' ''pending''], inventories = [holding 1 True],
      transactions = []\<rparr>"

definition db_cancelled :: database where
  "db_cancelled =
     \<lparr>orders = [sell_order 1 ''steam'' ''cancelled''], inventories = [holding 1 False],
      transactions = []\<rparr>"

definition db_two_orders :: database where
  "db_two_orders =
     \<lparr>orders = [sell_order 1 ''c5game'' ''cancelled'', sell_order 2 ''steam'' ''pending''],
      inventories = [holding 1 True], transactions = []\<rparr>"

section \<open>Broadcast hub (csgo2-trading-bot/backend/websocket)\<close>

text \<open>
  A client is named by a number (its pointer). Its \<open>send\<close> channel is a buffered
  channel of messages: the buffer, the capacity it was made with and whether it has
  been closed. The hub holds the set of connected clients, here the list of the keys
  of \<open>clients\<close> in the order \<open>range\<close> visits them; the channels live in a store
  indexed by client, since the hub and the client's own pumps share them.
\<close>

type_synonym client = nat

record channel =
  ch_buf :: "string list"
  ch_cap :: nat
  ch_closed :: bool

record Hub =
  h_clients :: "client list"
  h_send :: "client \<Rightarrow> channel"

text \<open>\<open>make(chan []byte, 256)\<close>, the channel every client is created with.\<close>

definition make_send_chan :: channel where
  "make_send_chan = \<lparr>ch_buf = [], ch_cap = 256, ch_closed = False\<rparr>"

text \<open>
  A send inside \<open>select\<close> with a \<open>default\<close> branch: it panics on a closed channel,
  enqueues when the buffer has room, and otherwise lets \<open>default\<close> run. \<open>close\<close>
  panics on a channel that is closed already.
\<close>

datatype send_result = Sent channel | WouldBlock | SendPanic

definition try_send :: "channel \<Rightarrow> string \<Rightarrow> send_result" where
  "try_send ch message =
     (if ch_closed ch then SendPanic
      else if length (ch_buf ch) < ch_cap ch then Sent (ch\<lparr>ch_buf := ch_buf ch @ [message]\<rparr>)
      else WouldBlock)"

definition close_chan :: "channel \<Rightarrow> channel option" where
  "close_chan ch = (if ch_closed ch then None else Some (ch\<lparr>ch_closed := True\<rparr>))"

text \<open>
  The three cases of the \<open>select\<close> in \<open>Hub.Run\<close>, one per received value. The loop
  of the broadcast case runs over the clients connected when it starts; the only
  key it deletes on the way is the one it is visiting.
\<close>

datatype hub_event = Register client | Unregister client | Broadcast string

fun broadcast_loop :: "string \<Rightarrow> client list \<Rightarrow> Hub \<Rightarrow> string + Hub" where
  "broadcast_loop message [] h = Inr h"
| "broadcast_loop message (c # cs) h =
     (case try_send (h_send h c) message of
        Sent ch \<Rightarrow> broadcast_loop message cs (h\<lparr>h_send := (h_send h)(c := ch)\<rparr>)
      | WouldBlock \<Rightarrow>
          (case close_chan (h_send h c) of
             None \<Rightarrow> Inl ''close of closed channel''
           | Some ch \<Rightarrow>
               broadcast_loop message cs
                 (h\<lparr>h_send := (h_send h)(c := ch), h_clients := removeAll c (h_clients h)\<rparr>))
      | SendPanic \<Rightarrow> Inl ''send on closed channel'')"

definition hub_step :: "hub_event \<Rightarrow> Hub \<Rightarrow> string + Hub" where
  "hub_step ev h =
     (case ev of
        Register c \<Rightarrow>
          Inr (h\<lparr>h_clients :=
                  (if c \<in> set (h_clients h) then h_clients h else h_clients h @ [c])\<rparr>)
      | Unregister c \<Rightarrow>
          if c \<in> set (h_clients h) then
            (case close_chan (h_send h c) of
               None \<Rightarrow> Inl ''close of closed channel''
             | Some ch \<Rightarrow>
                 Inr (h\<lparr>h_clients := removeAll c (h_clients h), h_send := (h_send h)(c := ch)\<rparr>))
          else Inr h
      | Broadcast message \<Rightarrow> broadcast_loop message (h_clients h) h)"

text \<open>\<open>Hub.Run\<close> on the values it receives, in the order it receives them.\<close>

fun Run :: "hub_event list \<Rightarrow> Hub \<Rightarrow> string + Hub" where
  "Run [] h = Inr h"
| "Run (ev # evs) h = (case hub_step ev h of Inl panic \<Rightarrow> Inl panic | Inr h' \<Rightarrow> Run evs h')"

definition has_room :: "Hub \<Rightarrow> client \<Rightarrow> bool" where
  "has_room h c \<longleftrightarrow> length (ch_buf (h_send h c)) < ch_cap (h_send h c)"

definition after_send :: "string \<Rightarrow> channel \<Rightarrow> channel" where
  "after_send message ch =
     (if length (ch_buf ch) < ch_cap ch then ch\<lparr>ch_buf := ch_buf ch @ [message]\<rparr>
      else ch\<lparr>ch_closed := True\<rparr>)"

text \<open>A hub with two clients: the buffer of client 1 is empty, that of client 2 is full.\<close>

definition hub_two :: Hub where
  "hub_two =
     \<lparr>h_clients = [1, 2],
      h_send = (\<lambda>c. if c = 2 then make_send_chan\<lparr>ch_buf := replicate 256 ''tick''\<rparr>
                    else make_send_chan)\<rparr>"

section \<open>Verification\<close>

subsection \<open>Facts about the analyzer\<close>

lemma foldl_plus_sum_list:
  "foldl (\<lambda>s p. s + f p) a xs = a + (\<Sum>x\<leftarrow>xs. (f x :: real))"
  by (induction xs arbitrary: a) simp_all

lemma calculateAverage_mean:
  "xs \<noteq> [] \<Longrightarrow> calculateAverage xs = sum_list xs / real (length xs)"
  using foldl_plus_sum_list [of "\<lambda>p. p" 0 xs] by (simp add: calculateAverage_def)

lemma calculateStdDev_variance:
  "calculateStdDev xs = (population_stddev_spec xs)\<^sup>2"
proof (cases "xs = []")
  case True
  then show ?thesis by (simp add: calculateStdDev_def population_stddev_spec_def)
next
  case False
  let ?m = "sum_list xs / real (length xs)"
  have nonneg: "0 \<le> (\<Sum>x\<leftarrow>xs. (x - ?m)\<^sup>2) / real (length xs)"
    by (intro divide_nonneg_nonneg sum_list_nonneg) auto
  have "calculateStdDev xs = (\<Sum>x\<leftarrow>xs. (x - ?m)\<^sup>2) / real (length xs)"
    using False foldl_plus_sum_list [of "\<lambda>p. (p - ?m) * (p - ?m)" 0 xs]
    by (simp add: calculateStdDev_def calculateAverage_mean power2_eq_square Let_def)
  with nonneg show ?thesis by (simp add: population_stddev_spec_def)
qed

text \<open>
  Claim C7. The analyzer's standard-deviation value is meant to be the population
  standard deviation of the series, and its volatility the population standard
  deviation of the period returns. On the series 2, 6 the population standard deviation is 2
  and \<open>calculateStdDev\<close> returns 4, the variance; on the series 1, 2, 6 the returns
  are 1 and 2, their population standard deviation is 1/2 and \<open>calculateVolatility\<close>
  returns 1/4.
\<close>

theorem C7_stddev_returns_variance:
  "calculateStdDev [2, 6] = 4 \<and> population_stddev_spec [2, 6] = 2 \<and>
   calculateVolatility [1, 2, 6] = Some (1 / 4) \<and> population_stddev_spec [1, 2] = 1 / 2"
proof -
  have a: "calculateStdDev [2, 6] = 4"
    by (simp add: calculateStdDev_def calculateAverage_def)
  have b: "population_stddev_spec [2, 6] = 2"
  proof -
    have "population_stddev_spec [2, 6] = sqrt (2\<^sup>2)"
      by (simp add: population_stddev_spec_def power2_eq_square)
    then show ?thesis by simp
  qed
  have c: "calculateVolatility [1, 2, 6] = Some (1 / 4)"
    by (simp add: calculateVolatility_def fdiv_def calculateStdDev_def calculateAverage_def)
  have d: "population_stddev_spec [1, 2] = 1 / 2"
  proof -
    have "population_stddev_spec [1, 2] = sqrt ((1 / 2)\<^sup>2)"
      by (simp add: population_stddev_spec_def power2_eq_square)
    then show ?thesis by simp
  qed
  from a b c d show ?thesis by blast
qed


subsection \<open>Rounding\<close>

lemma round64_binade:
  assumes "2 powr of_int e \<le> \<bar>x\<bar>" and "\<bar>x\<bar> < 2 powr of_int (e + 1)" and "- 1022 \<le> e"
  shows "round64 x = round_at e x"
proof -
  have pos: "0 < \<bar>x\<bar>" using assms(1) by (smt (verit) powr_gt_zero)
  have "\<lfloor>log 2 \<bar>x\<bar>\<rfloor> = e"
    using assms(1,2) pos by (subst floor_log_eq_powr_iff) (simp_all add: add.commute)
  with pos assms(3) show ?thesis by (auto simp: round64_def)
qed

lemma round64_subnormal:
  assumes "x \<noteq> 0" and "\<bar>x\<bar> < 2 powr (- 1022)"
  shows "round64 x = round_at (- 1022) x"
proof -
  have "log 2 \<bar>x\<bar> < - 1022"
    using assms by (simp add: log_less_iff)
  then have "\<lfloor>log 2 \<bar>x\<bar>\<rfloor> \<le> - 1022" by linarith
  then show ?thesis using assms(1) by (simp add: round64_def max_def)
qed

text \<open>
  \<open>round64\<close> at the edges of the format: a tie goes to the even significand, the
  largest finite number is kept and half a step beyond it overflows, and the numbers
  below the smallest normal one are rounded to multiples of \<open>2 ^ -1074\<close>.
\<close>

lemma round64_ties_to_even:
  "round64 (1 + 1 / 2 ^ 53) = Finite 1"
  "round64 (1 + 3 / 2 ^ 53) = Finite (1 + 1 / 2 ^ 51)"
  by (subst round64_binade [of 0];
      simp add: round_at_def round_even_def powr_neg_numeral)+

lemma round64_overflow:
  "round64 (2 ^ 1024 - 2 ^ 971) = Finite (2 ^ 1024 - 2 ^ 971)"
  "round64 (2 ^ 1024 - 2 ^ 970) = PosInf"
  "round64 (- (2 ^ 1024 - 2 ^ 970)) = NegInf"
  by (subst round64_binade [of 1023]; simp add: round_at_def round_even_def)+

lemma round64_underflow:
  "round64 (3 / 2 ^ 1075) = Finite (1 / 2 ^ 1073)"
  "round64 (1 / 2 ^ 1075) = Finite 0"
  by (subst round64_subnormal; simp add: round_at_def round_even_def powr_neg_numeral)+

text \<open>The two constants are the roundings of 1/10 and 8/10.\<close>

lemma round64_one_tenth: "round64 (1 / 10) = Finite lit_0_1"
  by (subst round64_binade [of "- 4"])
    (simp_all add: round_at_def round_even_def powr_neg_numeral lit_0_1_def)

lemma round64_eight_tenths: "round64 (8 / 10) = Finite lit_0_8"
  by (subst round64_binade [of "- 1"])
    (simp_all add: round_at_def round_even_def powr_neg_numeral lit_0_8_def)

text \<open>The computations of the examples, operation by operation.\<close>

lemma profit_percent_100_112: "profit_percent 100 112 = Finite 12"
proof -
  have a: "f64_sub 112 100 = Finite 12"
    unfolding f64_sub_def
    by (subst round64_binade [of 3]) (simp_all add: round_at_def round_even_def powr_neg_numeral)
  have b: "round64 (12 / 100) = Finite (1080863910568919 / 2 ^ 53)"
    by (subst round64_binade [of "- 4"])
      (simp_all add: round_at_def round_even_def powr_neg_numeral)
  have c: "round64 (1080863910568919 / 2 ^ 53 * 100) = Finite 12"
    by (subst round64_binade [of 3]) (simp_all add: round_at_def round_even_def powr_neg_numeral)
  show ?thesis unfolding profit_percent_def a using b c by simp
qed

text \<open>
  Rounding decides at the threshold: the exact percentage of 100 and 129 is 29, the
  computed one is the \<open>float64\<close> below 29.
\<close>

lemma profit_percent_100_129: "profit_percent 100 129 = Finite (8162774324609023 / 2 ^ 48)"
proof -
  have a: "f64_sub 129 100 = Finite 29"
    unfolding f64_sub_def
    by (subst round64_binade [of 4]) (simp_all add: round_at_def round_even_def powr_neg_numeral)
  have b: "round64 (29 / 100) = Finite (5224175567749775 / 2 ^ 54)"
    by (subst round64_binade [of "- 2"])
      (simp_all add: round_at_def round_even_def powr_neg_numeral)
  have c: "round64 (5224175567749775 / 2 ^ 54 * 100) = Finite (8162774324609023 / 2 ^ 48)"
    by (subst round64_binade [of 4]) (simp_all add: round_at_def round_even_def powr_neg_numeral)
  show ?thesis unfolding profit_percent_def a using b c by simp
qed

subsection \<open>Arbitrage detection\<close>

lemma concat_map_product:
  "concat (map (\<lambda>a. concat (map (f a) ys)) xs) = concat (map (\<lambda>(a, b). f a b) (List.product xs ys))"
  by (induction xs) (simp_all add: comp_def)

lemma concat_map_if_singleton:
  "concat (map (\<lambda>z. if c z then [g z] else []) zs) = map g (filter c zs)"
  by (induction zs) simp_all

lemma arbitrage_pair_alt:
  "arbitrage_pair item m e1 e2 = (if emits m (e1, e2) then [opportunity item (e1, e2)] else [])"
  by (cases e1; cases e2)
    (simp add: arbitrage_pair_def emits_def opportunity_def profit_percent_def Let_def)

lemma find_arbitrage_filter:
  "find_arbitrage item prices m = map (opportunity item) (filter (emits m) (List.product prices prices))"
proof -
  have "find_arbitrage item prices m =
        concat (map (\<lambda>(a, b). arbitrage_pair item m a b) (List.product prices prices))"
    unfolding find_arbitrage_def by (rule concat_map_product)
  also have "(\<lambda>(a, b). arbitrage_pair item m a b) =
             (\<lambda>z. if emits m z then [opportunity item z] else [])"
    by (auto simp: arbitrage_pair_alt fun_eq_iff)
  finally show ?thesis by (simp only: concat_map_if_singleton)
qed

lemma distinct_platform_pairs:
  assumes "distinct (map fst prices)"
  shows "distinct (map (\<lambda>z. (fst (fst z), fst (snd z))) (List.product prices prices))"
proof -
  from assms have d: "distinct prices" and inj: "inj_on fst (set prices)"
    by (simp_all add: distinct_map)
  have "inj_on (\<lambda>z. (fst (fst z), fst (snd z))) (set prices \<times> set prices)"
    using inj by (auto simp: inj_on_def)
  with d show ?thesis by (simp add: distinct_map distinct_product)
qed

lemma find_arbitrage_distinct:
  assumes "distinct (map fst prices)"
  shows "distinct (map (\<lambda>opp. (ao_BuyPlatform opp, ao_SellPlatform opp)) (find_arbitrage item prices m))"
proof -
  have "map (\<lambda>opp. (ao_BuyPlatform opp, ao_SellPlatform opp)) (find_arbitrage item prices m) =
        map (\<lambda>z. (fst (fst z), fst (snd z))) (filter (emits m) (List.product prices prices))"
    by (simp add: find_arbitrage_filter opportunity_def comp_def)
  then show ?thesis
    using distinct_platform_pairs [OF assms] by (simp add: distinct_map_filter)
qed

lemma find_arbitrage_emission:
  assumes "distinct (map fst prices)"
  shows "distinct (map (\<lambda>opp. (ao_BuyPlatform opp, ao_SellPlatform opp))
           (find_arbitrage item prices minProfitPercent)) \<and>
         set (find_arbitrage item prices minProfitPercent) =
           {\<lparr>ao_Item = item, ao_BuyPlatform = fst b, ao_SellPlatform = fst s,
             ao_BuyPrice = p_Price (snd b), ao_SellPrice = p_Price (snd s),
             ao_Profit = f64_sub (p_Price (snd s)) (p_Price (snd b)),
             ao_ProfitPercent =
               f64_mul (f64_div (f64_sub (p_Price (snd s)) (p_Price (snd b))) (p_Price (snd b))) 100\<rparr>
            | b s. b \<in> set prices \<and> s \<in> set prices \<and> p_Price (snd s) > p_Price (snd b) \<and>
                   f64_ge (f64_mul (f64_div (f64_sub (p_Price (snd s)) (p_Price (snd b)))
                                      (p_Price (snd b))) 100)
                     minProfitPercent}"
proof (intro conjI)
  show "distinct (map (\<lambda>opp. (ao_BuyPlatform opp, ao_SellPlatform opp))
           (find_arbitrage item prices minProfitPercent))"
    by (rule find_arbitrage_distinct [OF assms])
next
  from assms have inj: "inj_on fst (set prices)" by (simp add: distinct_map)
  have key: "b \<noteq> s \<Longrightarrow> fst b \<noteq> fst s" if "b \<in> set prices" "s \<in> set prices" for b s
    using inj that by (auto simp: inj_on_def)
  have em: "emits minProfitPercent (b, s) \<longleftrightarrow>
            p_Price (snd s) > p_Price (snd b) \<and>
            f64_ge (f64_mul (f64_div (f64_sub (p_Price (snd s)) (p_Price (snd b)))
                               (p_Price (snd b))) 100) minProfitPercent"
    if "b \<in> set prices" "s \<in> set prices" for b s
    using that key [OF that] by (auto simp: emits_def profit_percent_def)
  have op: "opportunity item (b, s) =
            \<lparr>ao_Item = item, ao_BuyPlatform = fst b, ao_SellPlatform = fst s,
             ao_BuyPrice = p_Price (snd b), ao_SellPrice = p_Price (snd s),
             ao_Profit = f64_sub (p_Price (snd s)) (p_Price (snd b)),
             ao_ProfitPercent =
               f64_mul (f64_div (f64_sub (p_Price (snd s)) (p_Price (snd b))) (p_Price (snd b))) 100\<rparr>"
    for b s
    by (simp add: opportunity_def profit_percent_def)
  show "set (find_arbitrage item prices minProfitPercent) =
           {\<lparr>ao_Item = item, ao_BuyPlatform = fst b, ao_SellPlatform = fst s,
             ao_BuyPrice = p_Price (snd b), ao_SellPrice = p_Price (snd s),
             ao_Profit = f64_sub (p_Price (snd s)) (p_Price (snd b)),
             ao_ProfitPercent =
               f64_mul (f64_div (f64_sub (p_Price (snd s)) (p_Price (snd b))) (p_Price (snd b))) 100\<rparr>
            | b s. b \<in> set prices \<and> s \<in> set prices \<and> p_Price (snd s) > p_Price (snd b) \<and>
                   f64_ge (f64_mul (f64_div (f64_sub (p_Price (snd s)) (p_Price (snd b)))
                                      (p_Price (snd b))) 100)
                     minProfitPercent}" (is "?L = ?R")
  proof (intro set_eqI iffI)
    fix x assume "x \<in> ?L"
    then obtain b s where bs: "b \<in> set prices" "s \<in> set prices"
      "emits minProfitPercent (b, s)" "x = opportunity item (b, s)"
      by (auto simp: find_arbitrage_filter)
    with em [OF bs(1,2)] op [of b s] show "x \<in> ?R" by blast
  next
    fix x assume "x \<in> ?R"
    then obtain b s where bs: "b \<in> set prices" "s \<in> set prices"
      "p_Price (snd s) > p_Price (snd b)"
      "f64_ge (f64_mul (f64_div (f64_sub (p_Price (snd s)) (p_Price (snd b)))
                          (p_Price (snd b))) 100) minProfitPercent"
      "x = \<lparr>ao_Item = item, ao_BuyPlatform = fst b, ao_SellPlatform = fst s,
             ao_BuyPrice = p_Price (snd b), ao_SellPrice = p_Price (snd s),
             ao_Profit = f64_sub (p_Price (snd s)) (p_Price (snd b)),
             ao_ProfitPercent =
               f64_mul (f64_div (f64_sub (p_Price (snd s)) (p_Price (snd b))) (p_Price (snd b))) 100\<rparr>"
      by blast
    with em [OF bs(1,2)] op [of b s]
    have "emits minProfitPercent (b, s)" "x = opportunity item (b, s)" by simp_all
    with bs(1,2) show "x \<in> ?L" by (force simp: find_arbitrage_filter)
  qed
qed

lemma find_arbitrage_short:
  "length prices < 2 \<Longrightarrow> find_arbitrage item prices m = []"
proof (cases prices)
  case Nil
  then show ?thesis by (simp add: find_arbitrage_def)
next
  case (Cons e es)
  assume "length prices < 2"
  with Cons have "es = []" by simp
  with Cons show ?thesis by (cases e) (simp add: find_arbitrage_def arbitrage_pair_def)
qed

lemma arbitrage_items_concat:
  "arbitrage_items latest m items acc = acc @ concat (map (item_block latest m) items)"
proof (induction items arbitrary: acc)
  case Nil
  then show ?case by simp
next
  case (Cons item items)
  show ?case
  proof (cases "latest (it_ID item)")
    case (Inl err)
    then show ?thesis by (simp add: Cons.IH item_block_def)
  next
    case (Inr prices)
    then show ?thesis
      by (cases "length prices < 2") (simp_all add: Cons.IH item_block_def find_arbitrage_short)
  qed
qed

lemma GetArbitrageOpportunities_blocks:
  "GetArbitrageOpportunities (Inr items) latest m = Inr (concat (map (item_block latest m) items))"
  by (simp add: GetArbitrageOpportunities_def arbitrage_items_concat)

lemma find_arbitrage_AB_10:
  "find_arbitrage item prices_AB (Finite 10) =
     [\<lparr>ao_Item = item, ao_BuyPlatform = ''A'', ao_SellPlatform = ''B'',
       ao_BuyPrice = 100, ao_SellPrice = 112, ao_Profit = Finite 12,
       ao_ProfitPercent = Finite 12\<rparr>]"
proof -
  have a: "f64_sub 112 100 = Finite 12"
    unfolding f64_sub_def
    by (subst round64_binade [of 3]) (simp_all add: round_at_def round_even_def powr_neg_numeral)
  have b: "f64_mul (f64_div (f64_sub 112 100) 100) 100 = Finite 12"
    using profit_percent_100_112 by (simp add: profit_percent_def)
  show ?thesis
    by (simp add: find_arbitrage_def arbitrage_pair_def prices_AB_def quote_def Let_def b)
      (simp add: a)
qed

lemma find_arbitrage_AB_15: "find_arbitrage item prices_AB (Finite 15) = []"
proof -
  have b: "f64_mul (f64_div (f64_sub 112 100) 100) 100 = Finite 12"
    using profit_percent_100_112 by (simp add: profit_percent_def)
  show ?thesis
    by (simp add: find_arbitrage_def arbitrage_pair_def prices_AB_def quote_def Let_def b)
qed

text \<open>
  With the prices 100 and 129 and the threshold 29 nothing is emitted: the computed
  percentage is below 29.
\<close>

lemma find_arbitrage_rounded_below_threshold:
  "find_arbitrage item [(''A'', quote 1 ''A'' 100), (''B'', quote 2 ''B'' 129)] (Finite 29) = []"
proof -
  have b: "f64_mul (f64_div (f64_sub 129 100) 100) 100 = Finite (8162774324609023 / 2 ^ 48)"
    using profit_percent_100_129 by (simp add: profit_percent_def)
  show ?thesis
    by (simp add: find_arbitrage_def arbitrage_pair_def quote_def Let_def b)
qed

text \<open>
  Claim C6. For every list of items and every answer of the latest prices per venue
  (a map: distinct venues; no price 0), arbitrage detection returns, item after item,
  exactly one opportunity for each ordered pair of venues (buy, sell) of the item
  whose sell price is above the buy price and whose
  \<open>profitPercent = (sell - buy) / buy * 100\<close>, computed in \<open>float64\<close>, is at least
  \<open>minProfitPercent\<close>, with \<open>profit = sell - buy\<close>, and nothing else; an item whose
  prices cannot be read contributes nothing. With prices A: 100 and B: 112, the
  threshold 10 yields the single opportunity (buy A, sell B, profit 12,
  profitPercent 12) and the threshold 15 yields none.
\<close>

theorem C6_arbitrage_emission:
  assumes "\<forall>item \<in> set items. \<forall>prices. latest (it_ID item) = Inr prices \<longrightarrow>
             distinct (map fst prices) \<and> (\<forall>e \<in> set prices. p_Price (snd e) \<noteq> 0)"
  shows "(\<exists>blocks.
            GetArbitrageOpportunities (Inr items) latest minProfitPercent = Inr (concat blocks) \<and>
            list_all2
              (\<lambda>item block.
                 case latest (it_ID item) of
                   Inl err \<Rightarrow> block = []
                 | Inr prices \<Rightarrow>
                     distinct (map (\<lambda>opp. (ao_BuyPlatform opp, ao_SellPlatform opp)) block) \<and>
                     set block =
                       {\<lparr>ao_Item = item, ao_BuyPlatform = fst b, ao_SellPlatform = fst s,
                         ao_BuyPrice = p_Price (snd b), ao_SellPrice = p_Price (snd s),
                         ao_Profit = f64_sub (p_Price (snd s)) (p_Price (snd b)),
                         ao_ProfitPercent =
                           f64_mul (f64_div (f64_sub (p_Price (snd s)) (p_Price (snd b)))
                                      (p_Price (snd b))) 100\<rparr>
                        | b s. b \<in> set prices \<and> s \<in> set prices \<and>
                               p_Price (snd s) > p_Price (snd b) \<and>
                               f64_ge (f64_mul (f64_div (f64_sub (p_Price (snd s)) (p_Price (snd b)))
                                                  (p_Price (snd b))) 100)
                                 minProfitPercent})
              items blocks) \<and>
         GetArbitrageOpportunities (Inr [item]) (\<lambda>i. Inr prices_AB) (Finite 10) =
           Inr [\<lparr>ao_Item = item, ao_BuyPlatform = ''A'', ao_SellPlatform = ''B'',
                 ao_BuyPrice = 100, ao_SellPrice = 112, ao_Profit = Finite 12,
                 ao_ProfitPercent = Finite 12\<rparr>] \<and>
         GetArbitrageOpportunities (Inr [item]) (\<lambda>i. Inr prices_AB) (Finite 15) = Inr []"
proof (intro conjI)
  let ?R = "\<lambda>item block.
                 case latest (it_ID item) of
                   Inl err \<Rightarrow> block = []
                 | Inr prices \<Rightarrow>
                     distinct (map (\<lambda>opp. (ao_BuyPlatform opp, ao_SellPlatform opp)) block) \<and>
                     set block =
                       {\<lparr>ao_Item = item, ao_BuyPlatform = fst b, ao_SellPlatform = fst s,
                         ao_BuyPrice = p_Price (snd b), ao_SellPrice = p_Price (snd s),
                         ao_Profit = f64_sub (p_Price (snd s)) (p_Price (snd b)),
                         ao_ProfitPercent =
                           f64_mul (f64_div (f64_sub (p_Price (snd s)) (p_Price (snd b)))
                                      (p_Price (snd b))) 100\<rparr>
                        | b s. b \<in> set prices \<and> s \<in> set prices \<and>
                               p_Price (snd s) > p_Price (snd b) \<and>
                               f64_ge (f64_mul (f64_div (f64_sub (p_Price (snd s)) (p_Price (snd b)))
                                                  (p_Price (snd b))) 100)
                                 minProfitPercent}"
  have each: "?R item (item_block latest minProfitPercent item)" if "item \<in> set items" for item
  proof (cases "latest (it_ID item)")
    case (Inl err)
    then show ?thesis by (simp add: item_block_def)
  next
    case (Inr prices)
    with assms that have "distinct (map fst prices)" by blast
    from find_arbitrage_emission [OF this, of item minProfitPercent] Inr
    show ?thesis by (simp add: item_block_def)
  qed
  have "list_all2 ?R items (map (item_block latest minProfitPercent) items)"
    using each by (simp add: list_all2_map2 list_all2_same)
  then show "\<exists>blocks.
            GetArbitrageOpportunities (Inr items) latest minProfitPercent = Inr (concat blocks) \<and>
            list_all2 ?R items blocks"
    using GetArbitrageOpportunities_blocks [of items latest minProfitPercent] by blast
next
  show "GetArbitrageOpportunities (Inr [item]) (\<lambda>i. Inr prices_AB) (Finite 10) =
           Inr [\<lparr>ao_Item = item, ao_BuyPlatform = ''A'', ao_SellPlatform = ''B'',
                 ao_BuyPrice = 100, ao_SellPrice = 112, ao_Profit = Finite 12,
                 ao_ProfitPercent = Finite 12\<rparr>]"
    by (simp add: GetArbitrageOpportunities_blocks item_block_def find_arbitrage_AB_10)
next
  show "GetArbitrageOpportunities (Inr [item]) (\<lambda>i. Inr prices_AB) (Finite 15) = Inr []"
    by (simp add: GetArbitrageOpportunities_blocks item_block_def find_arbitrage_AB_15)
qed

theorem C6_arbitrage_emission_witness:
  "GetArbitrageOpportunities (Inr [item_AK, item_AWP])
     (\<lambda>i. if i = 1 then Inr prices_AB else if i = 2 then Inr prices_far else Inl ''no prices'')
     (Finite 10) =
     Inr [\<lparr>ao_Item = item_AK, ao_BuyPlatform = ''A'', ao_SellPlatform = ''B'',
           ao_BuyPrice = 100, ao_SellPrice = 112, ao_Profit = Finite 12,
           ao_ProfitPercent = Finite 12\<rparr>,
          \<lparr>ao_Item = item_AWP, ao_BuyPlatform = ''buff'', ao_SellPlatform = ''youpin'',
           ao_BuyPrice = 100, ao_SellPrice = 120, ao_Profit = Finite 20,
           ao_ProfitPercent = Finite 20\<rparr>]"
proof -
  let ?latest = "\<lambda>i::nat. if i = 1 then Inr prices_AB else if i = 2 then Inr prices_far
                          else (Inl ''no prices'' :: string + (string \<times> Price) list)"
  have h: "\<forall>item \<in> set [item_AK, item_AWP]. \<forall>prices. ?latest (it_ID item) = Inr prices \<longrightarrow>
             distinct (map fst prices) \<and> (\<forall>e \<in> set prices. p_Price (snd e) \<noteq> 0)"
    by (auto simp: item_AK_def item_AWP_def prices_AB_def prices_far_def quote_def)
  from C6_arbitrage_emission [OF h, of "Finite 10"]
  obtain blocks where b:
    "GetArbitrageOpportunities (Inr [item_AK, item_AWP]) ?latest (Finite 10) = Inr (concat blocks)"
    by blast
  have s20: "f64_sub 120 100 = Finite 20"
    unfolding f64_sub_def
    by (subst round64_binade [of 4]) (simp_all add: round_at_def round_even_def powr_neg_numeral)
  have d20: "round64 (20 / 100) = Finite (3602879701896397 / 2 ^ 54)"
    by (subst round64_binade [of "- 3"])
      (simp_all add: round_at_def round_even_def powr_neg_numeral)
  have m20: "round64 (3602879701896397 / 2 ^ 54 * 100) = Finite 20"
    by (subst round64_binade [of 4]) (simp_all add: round_at_def round_even_def powr_neg_numeral)
  have far: "find_arbitrage item_AWP prices_far (Finite 10) =
      [\<lparr>ao_Item = item_AWP, ao_BuyPlatform = ''buff'', ao_SellPlatform = ''youpin'',
        ao_BuyPrice = 100, ao_SellPrice = 120, ao_Profit = Finite 20,
        ao_ProfitPercent = Finite 20\<rparr>]"
    using d20 m20
    by (simp add: find_arbitrage_def arbitrage_pair_def prices_far_def quote_def Let_def s20)
  have ids: "it_ID item_AK = 1" "it_ID item_AWP = 2"
    by (simp_all add: item_AK_def item_AWP_def)
  have "concat (map (item_block ?latest (Finite 10)) [item_AK, item_AWP]) =
      [\<lparr>ao_Item = item_AK, ao_BuyPlatform = ''A'', ao_SellPlatform = ''B'',
           ao_BuyPrice = 100, ao_SellPrice = 112, ao_Profit = Finite 12,
           ao_ProfitPercent = Finite 12\<rparr>,
          \<lparr>ao_Item = item_AWP, ao_BuyPlatform = ''buff'', ao_SellPlatform = ''youpin'',
           ao_BuyPrice = 100, ao_SellPrice = 120, ao_Profit = Finite 20,
           ao_ProfitPercent = Finite 20\<rparr>]"
    using ids by (simp add: item_block_def find_arbitrage_AB_10 far)
  with b GetArbitrageOpportunities_blocks [of "[item_AK, item_AWP]" ?latest "Finite 10"]
  show ?thesis by simp
qed

subsection \<open>Recording prices\<close>

lemma default_currency_fields [simp]:
  "p_ID (default_currency price) = p_ID price"
  "p_ItemID (default_currency price) = p_ItemID price"
  "p_Platform (default_currency price) = p_Platform price"
  "p_Timestamp (default_currency price) = p_Timestamp price"
  by (simp_all add: default_currency_def)

text \<open>
  The only insert that is refused is that of a row whose id is taken, as when the very
  row that was just stored, which now carries its id, is saved again.
\<close>

lemma SavePrice_stored_row_refused:
  assumes "SavePrice price prices = (None, saved, prices')"
  shows "SavePrice saved prices' = (Some ''duplicated key not allowed'', saved, prices')"
  using assms by (auto simp: SavePrice_def Let_def fresh_id_def split: if_splits)

text \<open>
  Claim C5, as the code has it. \<open>SavePrice\<close> is a plain insert: it checks neither
  the price nor the volume and does not look for an earlier row of the same
  observation. Saving an observation that brings no row id succeeds whatever its
  price and volume are, and saving a second observation of the same contents succeeds
  again: the history then holds two more rows of that (item, venue, time) than before.
\<close>

theorem C5_save_appends_every_time:
  assumes "p_ID price = 0"
  shows "\<exists>saved1 prices1 saved2 prices2.
           SavePrice price prices = (None, saved1, prices1) \<and>
           SavePrice price prices1 = (None, saved2, prices2) \<and>
           length (filter (same_observation price) prices2) =
             length (filter (same_observation price) prices) + 2"
  using assms by (simp add: SavePrice_def Let_def same_observation_def)

theorem C5_save_appends_every_time_witness:
  "p_ID (quote 0 ''buff'' 10) = 0 \<and>
   (\<exists>saved1 prices1 saved2 prices2.
      SavePrice (quote 0 ''buff'' 10) [] = (None, saved1, prices1) \<and>
      SavePrice (quote 0 ''buff'' 10) prices1 = (None, saved2, prices2) \<and>
      length (filter (same_observation (quote 0 ''buff'' 10)) prices2) =
        length (filter (same_observation (quote 0 ''buff'' 10)) []) + 2)"
proof -
  have h: "p_ID (quote 0 ''buff'' 10) = 0" by (simp add: quote_def)
  from C5_save_appends_every_time [OF h, of "[]"] h show ?thesis by blast
qed

text \<open>
  The claim as stated fails: the same observation saved twice into the empty history
  leaves two rows of it, and an observation with the price -1 is accepted.
\<close>

theorem C5_duplicate_and_invalid_counterexample:
  "length (filter (same_observation (quote 0 ''buff'' 10))
     (snd (snd (SavePrice (quote 0 ''buff'' 10)
        (snd (snd (SavePrice (quote 0 ''buff'' 10) []))))))) = 2 \<and>
   fst (SavePrice (quote 0 ''buff'' (- 1)) []) = None \<and>
   length (snd (snd (SavePrice (quote 0 ''buff'' (- 1)) []))) = 1"
  by (simp add: SavePrice_def Let_def same_observation_def quote_def fresh_id_def)

subsection \<open>Strategy signals\<close>

lemma scan_fold:
  "foldl scan_price (a, b, c, d) prices = (mn, pl, mx, ql) \<Longrightarrow>
     mn = Min (insert a ((\<lambda>e. p_Price (snd e)) ` set prices)) \<and>
     mx = Max (insert c ((\<lambda>e. p_Price (snd e)) ` set prices)) \<and>
     (if mn < a then \<exists>p. (pl, p) \<in> set prices \<and> p_Price p = mn else pl = b) \<and>
     (if mx > c then \<exists>p. (ql, p) \<in> set prices \<and> p_Price p = mx else ql = d)"
proof (induction prices arbitrary: mn pl mx ql rule: rev_induct)
  case Nil
  then show ?case by simp
next
  case (snoc e es)
  obtain mn0 pl0 mx0 ql0 where f: "foldl scan_price (a, b, c, d) es = (mn0, pl0, mx0, ql0)"
    by (cases "foldl scan_price (a, b, c, d) es") auto
  note ih = snoc.IH [OF f]
  obtain v p where e: "e = (v, p)" by (cases e)
  from snoc.prems have "scan_price (foldl scan_price (a, b, c, d) es) e = (mn, pl, mx, ql)"
    by simp
  with f e have "scan_price (mn0, pl0, mx0, ql0) (v, p) = (mn, pl, mx, ql)"
    by simp
  then have r:
    "mn = (if p_Price p < mn0 then p_Price p else mn0)"
    "pl = (if p_Price p < mn0 then v else pl0)"
    "mx = (if p_Price p > mx0 then p_Price p else mx0)"
    "ql = (if p_Price p > mx0 then v else ql0)"
    by (simp_all add: scan_price_def)
  let ?S = "(\<lambda>e. p_Price (snd e)) ` set es"
  have fin: "finite (insert a ?S)" "finite (insert c ?S)" by simp_all
  have m0: "Min (insert a ?S) = mn0" and x0: "Max (insert c ?S) = mx0"
    using ih by blast+
  have mn_eq: "mn = Min (insert a ((\<lambda>e. p_Price (snd e)) ` set (es @ [e])))"
  proof -
    have "insert a ((\<lambda>e. p_Price (snd e)) ` set (es @ [e])) = insert (p_Price p) (insert a ?S)"
      using e by auto
    then have "Min (insert a ((\<lambda>e. p_Price (snd e)) ` set (es @ [e]))) =
               min (p_Price p) (Min (insert a ?S))"
      by (simp only: Min_insert [OF fin(1) insert_not_empty])
    then show ?thesis unfolding m0 r(1) min_def by auto
  qed
  have mx_eq: "mx = Max (insert c ((\<lambda>e. p_Price (snd e)) ` set (es @ [e])))"
  proof -
    have "insert c ((\<lambda>e. p_Price (snd e)) ` set (es @ [e])) = insert (p_Price p) (insert c ?S)"
      using e by auto
    then have "Max (insert c ((\<lambda>e. p_Price (snd e)) ` set (es @ [e]))) =
               max (p_Price p) (Max (insert c ?S))"
      by (simp only: Max_insert [OF fin(2) insert_not_empty])
    then show ?thesis unfolding x0 r(3) max_def by auto
  qed
  have mn0_le: "mn0 \<le> a" using Min_le [OF fin(1), of a] unfolding m0 by simp
  have mx0_ge: "mx0 \<ge> c" using Max_ge [OF fin(2), of c] unfolding x0 by simp
  have pl0: "(if mn0 < a then \<exists>p. (pl0, p) \<in> set es \<and> p_Price p = mn0 else pl0 = b)"
    and ql0: "(if mx0 > c then \<exists>p. (ql0, p) \<in> set es \<and> p_Price p = mx0 else ql0 = d)"
    using ih by blast+
  have pl_ok: "(if mn < a then \<exists>q. (pl, q) \<in> set (es @ [e]) \<and> p_Price q = mn else pl = b)"
    using pl0 r(1,2) e mn0_le by (auto split: if_splits)
  have ql_ok: "(if mx > c then \<exists>q. (ql, q) \<in> set (es @ [e]) \<and> p_Price q = mx else ql = d)"
    using ql0 r(3,4) e mx0_ge by (auto split: if_splits)
  from mn_eq mx_eq pl_ok ql_ok show ?case by blast
qed

lemma analyzePrices_min_max:
  assumes "prices \<noteq> []"
    and "\<forall>e \<in> set prices. 0 < p_Price (snd e) \<and> p_Price (snd e) < 999999"
  shows "\<exists>vmin pmin vmax pmax.
           foldl scan_price (999999, '''', 0, '''') prices = (p_Price pmin, vmin, p_Price pmax, vmax) \<and>
           (vmin, pmin) \<in> set prices \<and>
           p_Price pmin = Min ((\<lambda>e. p_Price (snd e)) ` set prices) \<and>
           (vmax, pmax) \<in> set prices \<and>
           p_Price pmax = Max ((\<lambda>e. p_Price (snd e)) ` set prices)"
proof -
  let ?S = "(\<lambda>e. p_Price (snd e)) ` set prices"
  have fin: "finite ?S" and ne: "?S \<noteq> {}" using assms(1) by simp_all
  have bounds: "0 < x \<and> x < 999999" if "x \<in> ?S" for x using that assms(2) by auto
  have minS: "Min ?S \<in> ?S" and maxS: "Max ?S \<in> ?S"
    using fin ne by (rule Min_in, rule Max_in)
  obtain mn pl mx ql where f: "foldl scan_price (999999, '''', 0, '''') prices = (mn, pl, mx, ql)"
    by (cases "foldl scan_price (999999, '''', 0, '''') prices") auto
  note sf = scan_fold [OF f]
  have mn: "mn = Min ?S"
  proof -
    have "Min (insert 999999 ?S) = min 999999 (Min ?S)" by (rule Min_insert [OF fin ne])
    with sf bounds [OF minS] show ?thesis by (simp only: min_def split: if_splits) auto
  qed
  have mx: "mx = Max ?S"
  proof -
    have "Max (insert 0 ?S) = max 0 (Max ?S)" by (rule Max_insert [OF fin ne])
    with sf bounds [OF maxS] show ?thesis by (simp only: max_def split: if_splits) auto
  qed
  have "mn < 999999" using mn bounds [OF minS] by simp
  with sf obtain pmin where pmin: "(pl, pmin) \<in> set prices" "p_Price pmin = mn"
    by (auto split: if_splits)
  have "mx > 0" using mx bounds [OF maxS] by simp
  with sf obtain pmax where pmax: "(ql, pmax) \<in> set prices" "p_Price pmax = mx"
    by (auto split: if_splits)
  from f pmin pmax mn mx show ?thesis by (metis (no_types, lifting))
qed

text \<open>The computations of the examples.\<close>

lemma round64_one_fifth: "round64 (1 / 5) = Finite (3602879701896397 / 2 ^ 54)"
  by (subst round64_binade [of "- 3"])
    (simp_all add: round_at_def round_even_def powr_neg_numeral)

lemma f64_sub_120_100: "f64_sub 120 100 = Finite 20"
  unfolding f64_sub_def
  by (subst round64_binade [of 4]) (simp_all add: round_at_def round_even_def powr_neg_numeral)

lemma f64_sub_12_10: "f64_sub 12 10 = Finite 2"
  unfolding f64_sub_def
  by (subst round64_binade [of 1]) (simp_all add: round_at_def round_even_def powr_neg_numeral)

text \<open>
  Rounding decides at the threshold: for the \<open>float64\<close> prices nearest to 57.1 and
  62.81 (the two fractions below) the exact spread is above 1/10, the computed quotient is the constant
  \<open>0.1\<close> itself, and no signal is generated.
\<close>

lemma analyzePrices_rounded_to_threshold:
  "analyzePrices
     [(''buff'', quote 1 ''buff'' (8036110585089229 / 140737488355328)),
      (''youpin'', quote 2 ''youpin'' (1104965205449769 / 17592186044416))] strategy_wide = []"
proof -
  have a: "f64_sub (1104965205449769 / 17592186044416) (8036110585089229 / 140737488355328) =
      Finite (803611058508923 / 140737488355328)"
    unfolding f64_sub_def
    by (subst round64_binade [of 2]) (simp_all add: round_at_def round_even_def powr_neg_numeral)
  have b: "round64 (803611058508923 / 8036110585089229) = Finite lit_0_1"
    by (subst round64_binade [of "- 4"])
      (simp_all add: round_at_def round_even_def powr_neg_numeral lit_0_1_def)
  show ?thesis
    by (simp add: analyzePrices_def scan_price_def quote_def strategy_wide_def Let_def a b)
qed

text \<open>
  Claim C8, as the code has it. For a non-empty set of venue prices, all above 0 and
  below the start value 999999 of the minimum search, the signals of an evaluation
  are: a buy signal at a venue of minimum price exactly when the minimum is at most
  the strategy's buy threshold, the spread (max - min) / min, computed in \<open>float64\<close>,
  exceeds the constant \<open>0.1\<close> and the absolute difference max - min exceeds 5; then
  a sell signal at a venue of maximum price exactly when the maximum is at least the
  sell threshold and the same two conditions on the difference hold; and no other
  signal.
\<close>

theorem C8_signals_need_absolute_gap:
  assumes "prices \<noteq> []"
    and "\<forall>e \<in> set prices. 0 < p_Price (snd e) \<and> p_Price (snd e) < 999999"
  shows "\<exists>vmin pmin vmax pmax.
           (vmin, pmin) \<in> set prices \<and>
           p_Price pmin = Min ((\<lambda>e. p_Price (snd e)) ` set prices) \<and>
           (vmax, pmax) \<in> set prices \<and>
           p_Price pmax = Max ((\<lambda>e. p_Price (snd e)) ` set prices) \<and>
           analyzePrices prices strategy =
             (if f64_gt (f64_sub (p_Price pmax) (p_Price pmin)) (Finite 5) \<and>
                 f64_gt (f64_div (f64_sub (p_Price pmax) (p_Price pmin)) (p_Price pmin))
                   (Finite lit_0_1) \<and>
                 p_Price pmin \<le> st_BuyPrice strategy
              then [\<lparr>ts_ItemID = st_ItemID strategy, ts_Platform = vmin, ts_Action = ''buy'',
                     ts_Price = p_Price pmin, ts_Confidence = lit_0_8\<rparr>]
              else []) @
             (if f64_gt (f64_sub (p_Price pmax) (p_Price pmin)) (Finite 5) \<and>
                 f64_gt (f64_div (f64_sub (p_Price pmax) (p_Price pmin)) (p_Price pmin))
                   (Finite lit_0_1) \<and>
                 p_Price pmax \<ge> st_SellPrice strategy
              then [\<lparr>ts_ItemID = st_ItemID strategy, ts_Platform = vmax, ts_Action = ''sell'',
                     ts_Price = p_Price pmax, ts_Confidence = lit_0_8\<rparr>]
              else [])"
proof -
  from analyzePrices_min_max [OF assms]
  obtain vmin pmin vmax pmax where w:
    "foldl scan_price (999999, '''', 0, '''') prices = (p_Price pmin, vmin, p_Price pmax, vmax)"
    "(vmin, pmin) \<in> set prices"
    "p_Price pmin = Min ((\<lambda>e. p_Price (snd e)) ` set prices)"
    "(vmax, pmax) \<in> set prices"
    "p_Price pmax = Max ((\<lambda>e. p_Price (snd e)) ` set prices)"
    by blast
  have "analyzePrices prices strategy =
             (if f64_gt (f64_sub (p_Price pmax) (p_Price pmin)) (Finite 5) \<and>
                 f64_gt (f64_div (f64_sub (p_Price pmax) (p_Price pmin)) (p_Price pmin))
                   (Finite lit_0_1) \<and>
                 p_Price pmin \<le> st_BuyPrice strategy
              then [\<lparr>ts_ItemID = st_ItemID strategy, ts_Platform = vmin, ts_Action = ''buy'',
                     ts_Price = p_Price pmin, ts_Confidence = lit_0_8\<rparr>]
              else []) @
             (if f64_gt (f64_sub (p_Price pmax) (p_Price pmin)) (Finite 5) \<and>
                 f64_gt (f64_div (f64_sub (p_Price pmax) (p_Price pmin)) (p_Price pmin))
                   (Finite lit_0_1) \<and>
                 p_Price pmax \<ge> st_SellPrice strategy
              then [\<lparr>ts_ItemID = st_ItemID strategy, ts_Platform = vmax, ts_Action = ''sell'',
                     ts_Price = p_Price pmax, ts_Confidence = lit_0_8\<rparr>]
              else [])"
    by (simp add: analyzePrices_def w(1) Let_def)
  with w(2-5) show ?thesis by blast
qed

theorem C8_signals_need_absolute_gap_witness:
  "prices_far \<noteq> [] \<and>
   analyzePrices prices_far strategy_wide =
     [\<lparr>ts_ItemID = 1, ts_Platform = ''buff'', ts_Action = ''buy'', ts_Price = 100,
       ts_Confidence = lit_0_8\<rparr>,
      \<lparr>ts_ItemID = 1, ts_Platform = ''youpin'', ts_Action = ''sell'', ts_Price = 120,
       ts_Confidence = lit_0_8\<rparr>]"
proof -
  have h1: "prices_far \<noteq> []" by (simp add: prices_far_def)
  have h2: "\<forall>e \<in> set prices_far. 0 < p_Price (snd e) \<and> p_Price (snd e) < 999999"
    by (simp add: prices_far_def quote_def)
  have mn: "Min ((\<lambda>e. p_Price (snd e)) ` set prices_far) = 100"
    and mx: "Max ((\<lambda>e. p_Price (snd e)) ` set prices_far) = 120"
    by (simp_all add: prices_far_def quote_def)
  have g: "f64_gt (f64_sub 120 100) (Finite 5)"
    "f64_gt (f64_div (f64_sub 120 100) 100) (Finite lit_0_1)"
    by (simp_all add: f64_sub_120_100 round64_one_fifth lit_0_1_def)
  from C8_signals_need_absolute_gap [OF h1 h2, of strategy_wide]
  obtain vmin pmin vmax pmax where w:
    "(vmin, pmin) \<in> set prices_far" "p_Price pmin = 100"
    "(vmax, pmax) \<in> set prices_far" "p_Price pmax = 120"
    "analyzePrices prices_far strategy_wide =
       (if f64_gt (f64_sub (p_Price pmax) (p_Price pmin)) (Finite 5) \<and>
           f64_gt (f64_div (f64_sub (p_Price pmax) (p_Price pmin)) (p_Price pmin))
             (Finite lit_0_1) \<and>
           p_Price pmin \<le> st_BuyPrice strategy_wide
        then [\<lparr>ts_ItemID = st_ItemID strategy_wide, ts_Platform = vmin, ts_Action = ''buy'',
               ts_Price = p_Price pmin, ts_Confidence = lit_0_8\<rparr>]
        else []) @
       (if f64_gt (f64_sub (p_Price pmax) (p_Price pmin)) (Finite 5) \<and>
           f64_gt (f64_div (f64_sub (p_Price pmax) (p_Price pmin)) (p_Price pmin))
             (Finite lit_0_1) \<and>
           p_Price pmax \<ge> st_SellPrice strategy_wide
        then [\<lparr>ts_ItemID = st_ItemID strategy_wide, ts_Platform = vmax, ts_Action = ''sell'',
               ts_Price = p_Price pmax, ts_Confidence = lit_0_8\<rparr>]
        else [])"
    unfolding mn mx by blast
  from w(1,2) have "vmin = ''buff''" by (auto simp: prices_far_def quote_def)
  moreover from w(3,4) have "vmax = ''youpin''" by (auto simp: prices_far_def quote_def)
  ultimately have "analyzePrices prices_far strategy_wide =
     [\<lparr>ts_ItemID = 1, ts_Platform = ''buff'', ts_Action = ''buy'', ts_Price = 100,
       ts_Confidence = lit_0_8\<rparr>,
      \<lparr>ts_ItemID = 1, ts_Platform = ''youpin'', ts_Action = ''sell'', ts_Price = 120,
       ts_Confidence = lit_0_8\<rparr>]"
    using w(2,4,5) g by (simp add: strategy_wide_def)
  with h1 show ?thesis by blast
qed

text \<open>
  The claim as stated fails. With the prices 10 and 12 the minimum 10 is below the
  buy threshold 100, the maximum 12 is above the sell threshold 1 and the spread is
  20%, exactly and as computed, yet no signal is generated: the difference 2 does not
  exceed 5.
\<close>

theorem C8_small_gap_counterexample:
  "analyzePrices prices_near strategy_wide = [] \<and>
   (10 :: real) \<le> st_BuyPrice strategy_wide \<and> (12 :: real) \<ge> st_SellPrice strategy_wide \<and>
   ((12 :: real) - 10) / 10 > 1 / 10 \<and>
   f64_gt (f64_div (f64_sub 12 10) 10) (Finite lit_0_1)"
proof -
  have "analyzePrices prices_near strategy_wide = []"
    by (simp add: analyzePrices_def scan_price_def prices_near_def quote_def strategy_wide_def
        Let_def f64_sub_12_10)
  moreover have "f64_gt (f64_div (f64_sub 12 10) 10) (Finite lit_0_1)"
    by (simp add: f64_sub_12_10 round64_one_fifth lit_0_1_def)
  ultimately show ?thesis by (simp add: strategy_wide_def)
qed

subsection \<open>Order lifecycle\<close>

lemma create_sell_pending:
  "CreateSellOrder None None 1 7 80 1 ''steam'' (db_holding 1 False) =
     (Inr (sell_order 1 ''steam'' ''pending''), db_pending)"
  by (simp add: CreateSellOrder_def checkInventory_def lockInventory_def create_order_def
      db_holding_def holding_def sell_order_def db_pending_def fresh_id_def Let_def)

lemma scan_after_remove:
  "scan_buy_price (o_UserID order) (o_ItemID order) (removeFromInventory order db) = 0"
  by (simp add: scan_buy_price_def removeFromInventory_def filter_empty_conv)

lemma executeSellOrder_completed:
  assumes "o_Status (fst (executeSellOrder config now order db)) = ''completed''"
  shows "snd (executeSellOrder config now order db) =
           save_order (order\<lparr>o_Status := ''completed'', o_ExecutedAt := Some now\<rparr>)
             (recordTransaction now (order\<lparr>o_Status := ''completed'', o_ExecutedAt := Some now\<rparr>)
               (removeFromInventory (order\<lparr>o_Status := ''completed'', o_ExecutedAt := Some now\<rparr>) db))"
  using assms by (auto simp: executeSellOrder_def Let_def split: option.splits if_splits)

lemma inventories_save_order [simp]: "inventories (save_order order db) = inventories db"
  by (simp add: save_order_def)

lemma inventories_recordTransaction [simp]:
  "inventories (recordTransaction now order db) = inventories db"
  by (simp add: recordTransaction_def Let_def)

text \<open>
  The two transitions side by side: \<open>CancelOrder\<close> leaves an order alone whose stored
  status is not \<open>pending\<close>; \<open>executeSellOrder\<close> stores the status it computed,
  \<open>completed\<close> or \<open>failed\<close>, whatever the stored status was. A sale it completes
  is recorded with the profit \<open>p * q - fee\<close>: no buy price enters.
\<close>

lemma CancelOrder_leaves_terminal_order:
  assumes "find_order orderID db = Some order" and "o_Status order \<noteq> ''pending''"
  shows "snd (CancelOrder save_err orderID userID db) = db \<and>
         fst (CancelOrder save_err orderID userID db) \<noteq> None"
  using assms by (simp add: CancelOrder_def)

lemma find_after_replace:
  "o_ID order \<in> set (map o_ID rows) \<Longrightarrow>
   find (\<lambda>row. o_ID row = o_ID order)
     (map (\<lambda>row. if o_ID row = o_ID order then order else row) rows) = Some order"
  by (induction rows) auto

lemma find_snoc_absent:
  "find P rows = None \<Longrightarrow> P row \<Longrightarrow> find P (rows @ [row]) = Some row"
  by (induction rows) (auto split: if_splits)

lemma save_order_stored:
  "find_order (o_ID order) (save_order order db) = Some order"
proof (cases "o_ID order \<in> set (map o_ID (orders db))")
  case True
  then show ?thesis
    using find_after_replace [of order "orders db"]
    by (simp add: find_order_def save_order_def)
next
  case False
  then have "\<not> (\<exists>x. x \<in> set (orders db) \<and> o_ID x = o_ID order)"
    by (metis image_eqI list.set_map)
  then have "find (\<lambda>row. o_ID row = o_ID order) (orders db) = None"
    by (simp add: find_None_iff)
  then show ?thesis
    using False find_snoc_absent [of "\<lambda>row. o_ID row = o_ID order" "orders db" order]
    by (simp add: find_order_def save_order_def)
qed

lemma executeSellOrder_overwrites_stored_status:
  "find_order (o_ID order) (snd (executeSellOrder config now order db)) =
     Some (fst (executeSellOrder config now order db)) \<and>
   o_Status (fst (executeSellOrder config now order db)) \<in> {''completed'', ''failed''}"
proof -
  have id: "o_ID (fst (executeSellOrder config now order db)) = o_ID order"
    by (simp add: executeSellOrder_def Let_def split: option.splits)
  have "\<exists>db1. snd (executeSellOrder config now order db) =
      save_order (fst (executeSellOrder config now order db)) db1"
    by (simp add: executeSellOrder_def Let_def split: option.split) blast
  then obtain db1 where "snd (executeSellOrder config now order db) =
      save_order (fst (executeSellOrder config now order db)) db1" ..
  then have "find_order (o_ID order) (snd (executeSellOrder config now order db)) =
     Some (fst (executeSellOrder config now order db))"
    using save_order_stored [of "fst (executeSellOrder config now order db)" db1] id by simp
  moreover have "o_Status (fst (executeSellOrder config now order db)) \<in> {''completed'', ''failed''}"
    by (simp add: executeSellOrder_def Let_def split: option.splits)
  ultimately show ?thesis by blast
qed

lemma executeSellOrder_profit_without_buy_price:
  assumes "o_Status (fst (executeSellOrder config now order db)) = ''completed''"
    and "o_Type order = ''sell''"
  shows "t_Profit (last (transactions (snd (executeSellOrder config now order db)))) =
           o_Price order * real_of_int (o_Quantity order)
             - o_Price order * real_of_int (o_Quantity order) * (25 / 1000)"
  unfolding executeSellOrder_completed [OF assms(1)]
  using assms(2) scan_after_remove [of "order\<lparr>o_Status := ''completed'', o_ExecutedAt := Some now\<rparr>" db]
  by (simp add: save_order_def recordTransaction_def Let_def)

text \<open>
  Claim C1. An order's status is meant to leave \<open>pending\<close> once, and a terminal
  order is meant to be left alone. \<open>CancelOrder\<close> checks the stored status;
  \<open>executeSellOrder\<close> does not: it works on the copy of the order it was started
  with and saves it over the stored row. First run: a sell order is created (the
  record is locked), cancelled (status \<open>cancelled\<close>, record unlocked), and then its
  execution finishes: the stored status becomes \<open>completed\<close> and the inventory is
  deleted. Second run: an order on a platform the service does not support is
  created and cancelled, a second order locks the record again, and then the
  execution of the first fails: the cancelled order becomes \<open>failed\<close> and the
  record is unlocked a second time, under the pending second order.
\<close>

theorem C1_terminal_status_overwritten:
  "CreateSellOrder None None 1 7 80 1 ''steam'' (db_holding 1 False) =
     (Inr (sell_order 1 ''steam'' ''pending''), db_pending) \<and>
   CancelOrder None 1 1 db_pending = (None, db_cancelled) \<and>
   map o_Status (orders db_cancelled) = [''cancelled''] \<and>
   map o_Status (orders (snd (executeSellOrder config_on 200 (sell_order 1 ''steam'' ''pending'')
     db_cancelled))) = [''completed''] \<and>
   inventories (snd (executeSellOrder config_on 200 (sell_order 1 ''steam'' ''pending'')
     db_cancelled)) = [] \<and>
   fst (CreateSellOrder None None 1 7 80 1 ''c5game'' (db_holding 1 False)) =
     Inr (sell_order 1 ''c5game'' ''pending'') \<and>
   CancelOrder None 1 1 (snd (CreateSellOrder None None 1 7 80 1 ''c5game'' (db_holding 1 False))) =
     (None, \<lparr>orders = [sell_order 1 ''c5game'' ''cancelled''], inventories = [holding 1 False],
             transactions = []\<rparr>) \<and>
   CreateSellOrder None None 1 7 80 1 ''steam''
     \<lparr>orders = [sell_order 1 ''c5game'' ''cancelled''], inventories = [holding 1 False],
      transactions = []\<rparr> = (Inr (sell_order 2 ''steam'' ''pending''), db_two_orders) \<and>
   map o_Status (orders (snd (executeSellOrder config_on 200 (sell_order 1 ''c5game'' ''pending'')
     db_two_orders))) = [''failed'', ''pending''] \<and>
   map i_Locked (inventories (snd (executeSellOrder config_on 200
     (sell_order 1 ''c5game'' ''pending'') db_two_orders))) = [False]"
proof -
  have a: "CancelOrder None 1 1 db_pending = (None, db_cancelled)"
    by (simp add: CancelOrder_def find_order_def unlockInventory_def save_order_def
        db_pending_def db_cancelled_def sell_order_def holding_def Let_def)
  have b: "map o_Status (orders db_cancelled) = [''cancelled'']"
    by (simp add: db_cancelled_def sell_order_def)
  have c: "executeSellOrder config_on 200 (sell_order 1 ''steam'' ''pending'') db_cancelled =
      (sell_order 1 ''steam'' ''completed''\<lparr>o_ExecutedAt := Some 200\<rparr>,
       \<lparr>orders = [sell_order 1 ''steam'' ''completed''\<lparr>o_ExecutedAt := Some 200\<rparr>],
        inventories = [],
        transactions = [\<lparr>t_ID = 1, t_UserID = 1, t_OrderID = 1, t_Type = ''sell'', t_Amount = 80,
          t_Fee = 2, t_Profit = 78, t_Platform = ''steam'', t_CompletedAt = 200\<rparr>]\<rparr>)"
    by (simp add: executeSellOrder_def executeSteamSell_def removeFromInventory_def
        recordTransaction_def scan_buy_price_def save_order_def db_cancelled_def sell_order_def
        holding_def fresh_id_def Let_def)
  have d: "CreateSellOrder None None 1 7 80 1 ''c5game'' (db_holding 1 False) =
      (Inr (sell_order 1 ''c5game'' ''pending''),
       \<lparr>orders = [sell_order 1 ''c5game'' ''pending''], inventories = [holding 1 True],
        transactions = []\<rparr>)"
    by (simp add: CreateSellOrder_def checkInventory_def lockInventory_def create_order_def
        db_holding_def holding_def sell_order_def fresh_id_def Let_def)
  have e: "CancelOrder None 1 1
      \<lparr>orders = [sell_order 1 ''c5game'' ''pending''], inventories = [holding 1 True],
       transactions = []\<rparr> =
      (None, \<lparr>orders = [sell_order 1 ''c5game'' ''cancelled''], inventories = [holding 1 False],
              transactions = []\<rparr>)"
    by (simp add: CancelOrder_def find_order_def unlockInventory_def save_order_def
        sell_order_def holding_def Let_def)
  have f: "CreateSellOrder None None 1 7 80 1 ''steam''
      \<lparr>orders = [sell_order 1 ''c5game'' ''cancelled''], inventories = [holding 1 False],
       transactions = []\<rparr> = (Inr (sell_order 2 ''steam'' ''pending''), db_two_orders)"
    by (simp add: CreateSellOrder_def checkInventory_def lockInventory_def create_order_def
        holding_def sell_order_def db_two_orders_def fresh_id_def Let_def)
  have g: "snd (executeSellOrder config_on 200 (sell_order 1 ''c5game'' ''pending'') db_two_orders) =
      \<lparr>orders = [sell_order 1 ''c5game'' ''failed''\<lparr>o_FailedReason := ''unsupported platform''\<rparr>,
                 sell_order 2 ''steam'' ''pending''],
       inventories = [holding 1 False], transactions = []\<rparr>"
    by (simp add: executeSellOrder_def unlockInventory_def save_order_def db_two_orders_def
        sell_order_def holding_def Let_def)
  have h: "map o_Status (orders (snd (executeSellOrder config_on 200
      (sell_order 1 ''c5game'' ''pending'') db_two_orders))) = [''failed'', ''pending'']"
    unfolding g by (simp add: sell_order_def)
  have i: "map i_Locked (inventories (snd (executeSellOrder config_on 200
      (sell_order 1 ''c5game'' ''pending'') db_two_orders))) = [False]"
    unfolding g by (simp add: holding_def)
  have c1: "map o_Status (orders (snd (executeSellOrder config_on 200
      (sell_order 1 ''steam'' ''pending'') db_cancelled))) = [''completed'']"
    unfolding c by (simp add: sell_order_def)
  have c2: "inventories (snd (executeSellOrder config_on 200
      (sell_order 1 ''steam'' ''pending'') db_cancelled)) = []"
    unfolding c by simp
  have d1: "fst (CreateSellOrder None None 1 7 80 1 ''c5game'' (db_holding 1 False)) =
      Inr (sell_order 1 ''c5game'' ''pending'')"
    unfolding d by simp
  have e1: "CancelOrder None 1 1
      (snd (CreateSellOrder None None 1 7 80 1 ''c5game'' (db_holding 1 False))) =
      (None, \<lparr>orders = [sell_order 1 ''c5game'' ''cancelled''], inventories = [holding 1 False],
              transactions = []\<rparr>)"
    unfolding d using e by simp
  from create_sell_pending a b c1 c2 d1 e1 f h i show ?thesis by blast
qed

text \<open>
  Claim C2, as the code has it. The inventory check of \<open>CreateSellOrder\<close> has one
  failure mode. Whenever no unlocked record of the owner and item with at least the
  requested quantity exists, be it that no record is large enough or that the
  records that are large enough are locked, the creation fails with
  \<open>insufficient inventory\<close> and changes nothing; when such a record exists and the
  database statements succeed, the order is stored as \<open>pending\<close>. In every failure
  of the creation the error is returned and no order is stored.
\<close>

theorem C2_single_failure_mode:
  "((\<forall>row \<in> set (inventories db).
        \<not> (i_UserID row = userID \<and> i_ItemID row = itemID \<and> i_Quantity row \<ge> quantity \<and>
           \<not> i_Locked row)) \<longrightarrow>
      CreateSellOrder lock_err create_err userID itemID price quantity platform db =
        (Inl ''insufficient inventory'', db)) \<and>
   ((\<exists>row \<in> set (inventories db).
        i_UserID row = userID \<and> i_ItemID row = itemID \<and> i_Quantity row \<ge> quantity \<and>
        \<not> i_Locked row) \<longrightarrow>
      (\<exists>order db'.
         CreateSellOrder None None userID itemID price quantity platform db = (Inr order, db') \<and>
         o_Status order = ''pending'' \<and> orders db' = orders db @ [order])) \<and>
   (\<forall>err db'. CreateSellOrder lock_err create_err userID itemID price quantity platform db =
        (Inl err, db') \<longrightarrow> orders db' = orders db)"
proof (intro conjI allI impI)
  assume "\<forall>row \<in> set (inventories db).
        \<not> (i_UserID row = userID \<and> i_ItemID row = itemID \<and> i_Quantity row \<ge> quantity \<and>
           \<not> i_Locked row)"
  then have "\<not> checkInventory userID itemID quantity db"
    by (auto simp: checkInventory_def filter_empty_conv)
  then show "CreateSellOrder lock_err create_err userID itemID price quantity platform db =
        (Inl ''insufficient inventory'', db)"
    by (simp add: CreateSellOrder_def)
next
  assume "\<exists>row \<in> set (inventories db).
        i_UserID row = userID \<and> i_ItemID row = itemID \<and> i_Quantity row \<ge> quantity \<and>
        \<not> i_Locked row"
  then have "checkInventory userID itemID quantity db"
    by (auto simp: checkInventory_def filter_empty_conv)
  then show "\<exists>order db'.
         CreateSellOrder None None userID itemID price quantity platform db = (Inr order, db') \<and>
         o_Status order = ''pending'' \<and> orders db' = orders db @ [order]"
    by (simp add: CreateSellOrder_def lockInventory_def create_order_def Let_def)
next
  fix err db'
  assume "CreateSellOrder lock_err create_err userID itemID price quantity platform db =
        (Inl err, db')"
  then show "orders db' = orders db"
    by (auto simp: CreateSellOrder_def lockInventory_def create_order_def unlockInventory_def
        Let_def split: if_splits option.splits)
qed

theorem C2_single_failure_mode_witness:
  "filter (\<lambda>row. i_UserID row = 1 \<and> i_ItemID row = 7 \<and> i_Quantity row \<ge> 1 \<and> \<not> i_Locked row)
     (inventories (db_holding 5 True)) = [] \<and>
   CreateSellOrder None None 1 7 80 1 ''steam'' (db_holding 5 True) =
     (Inl ''insufficient inventory'', db_holding 5 True) \<and>
   orders (snd (CreateSellOrder None None 1 7 80 1 ''steam'' (db_holding 5 True))) =
     orders (db_holding 5 True) \<and>
   (\<exists>order db'.
      CreateSellOrder None None 1 7 80 1 ''steam'' (db_holding 5 False) = (Inr order, db') \<and>
      o_Status order = ''pending'' \<and> orders db' = orders (db_holding 5 False) @ [order])"
proof -
  have h: "\<forall>row \<in> set (inventories (db_holding 5 True)).
        \<not> (i_UserID row = 1 \<and> i_ItemID row = 7 \<and> i_Quantity row \<ge> 1 \<and> \<not> i_Locked row)"
    by (simp add: db_holding_def holding_def)
  have f: "filter (\<lambda>row. i_UserID row = 1 \<and> i_ItemID row = 7 \<and> i_Quantity row \<ge> 1 \<and>
       \<not> i_Locked row) (inventories (db_holding 5 True)) = []"
    by (simp add: db_holding_def holding_def)
  from C2_single_failure_mode [of "db_holding 5 True" 1 7 1 None None 80 "''steam''"] h
  have r: "CreateSellOrder None None 1 7 80 1 ''steam'' (db_holding 5 True) =
     (Inl ''insufficient inventory'', db_holding 5 True)"
    by blast
  then have o: "orders (snd (CreateSellOrder None None 1 7 80 1 ''steam'' (db_holding 5 True))) =
     orders (db_holding 5 True)"
    by simp
  have g: "\<exists>row \<in> set (inventories (db_holding 5 False)).
        i_UserID row = 1 \<and> i_ItemID row = 7 \<and> i_Quantity row \<ge> 1 \<and> \<not> i_Locked row"
    by (simp add: db_holding_def holding_def)
  from C2_single_failure_mode [of "db_holding 5 False" 1 7 1 None None 80 "''steam''"] g
  have p: "\<exists>order db'.
      CreateSellOrder None None 1 7 80 1 ''steam'' (db_holding 5 False) = (Inr order, db') \<and>
      o_Status order = ''pending'' \<and> orders db' = orders (db_holding 5 False) @ [order]"
    by blast
  from f r o p show ?thesis by blast
qed

text \<open>
  The claim as stated fails: a record of quantity 5 that is locked, and no record at
  all, are answered with the same error, \<open>insufficient inventory\<close>.
\<close>

theorem C2_locked_record_counterexample:
  "filter (\<lambda>row. i_UserID row = 1 \<and> i_ItemID row = 7 \<and> i_Quantity row \<ge> 1 \<and> i_Locked row)
     (inventories (db_holding 5 True)) = [holding 5 True] \<and>
   fst (CreateSellOrder None None 1 7 80 1 ''steam'' (db_holding 5 True)) =
     Inl ''insufficient inventory'' \<and>
   fst (CreateSellOrder None None 1 7 80 1 ''steam'' db_empty) = Inl ''insufficient inventory''"
  by (simp add: CreateSellOrder_def checkInventory_def db_holding_def holding_def db_empty_def)

text \<open>
  Claim C3, as the code has it. Price and quantity are checked by the request
  binding of the two handlers, in front of the service. A request with a price of
  at most 0 or a quantity below 1 is answered by both handlers with a bad-request
  response and leaves the database as it was; and whatever a handler is given, the
  order table afterwards is the one before, or the one before with one new order
  whose price is above 0 and whose quantity is at least 1.
\<close>

theorem C3_validation_in_handlers:
  "(rq_Price req \<le> 0 \<or> rq_Quantity req < 1 \<longrightarrow>
      CreateBuyOrder_handler create_err userID req db = (BadRequest, db) \<and>
      CreateSellOrder_handler lock_err create_err userID req db = (BadRequest, db)) \<and>
   (orders (snd (CreateBuyOrder_handler create_err userID req db)) = orders db \<or>
    (\<exists>order. orders (snd (CreateBuyOrder_handler create_err userID req db)) = orders db @ [order] \<and>
       o_Price order > 0 \<and> o_Quantity order \<ge> 1)) \<and>
   (orders (snd (CreateSellOrder_handler lock_err create_err userID req db)) = orders db \<or>
    (\<exists>order. orders (snd (CreateSellOrder_handler lock_err create_err userID req db)) =
         orders db @ [order] \<and>
       o_Price order > 0 \<and> o_Quantity order \<ge> 1))"
proof (intro conjI impI)
  assume "rq_Price req \<le> 0 \<or> rq_Quantity req < 1"
  then have "\<not> bind_order_request req" by (auto simp: bind_order_request_def)
  then show "CreateBuyOrder_handler create_err userID req db = (BadRequest, db)"
    and "CreateSellOrder_handler lock_err create_err userID req db = (BadRequest, db)"
    by (simp_all add: CreateBuyOrder_handler_def CreateSellOrder_handler_def)
next
  show "orders (snd (CreateBuyOrder_handler create_err userID req db)) = orders db \<or>
    (\<exists>order. orders (snd (CreateBuyOrder_handler create_err userID req db)) = orders db @ [order] \<and>
       o_Price order > 0 \<and> o_Quantity order \<ge> 1)"
  proof (cases "bind_order_request req")
    case False
    then show ?thesis by (simp add: CreateBuyOrder_handler_def)
  next
    case True
    then have "rq_Price req > 0" "rq_Quantity req \<ge> 1" by (auto simp: bind_order_request_def)
    with True show ?thesis
      by (cases create_err)
        (simp_all add: CreateBuyOrder_handler_def CreateBuyOrder_def checkUserBalance_def
          create_order_def Let_def)
  qed
next
  show "orders (snd (CreateSellOrder_handler lock_err create_err userID req db)) = orders db \<or>
    (\<exists>order. orders (snd (CreateSellOrder_handler lock_err create_err userID req db)) =
         orders db @ [order] \<and>
       o_Price order > 0 \<and> o_Quantity order \<ge> 1)"
  proof (cases "bind_order_request req")
    case False
    then show ?thesis by (simp add: CreateSellOrder_handler_def)
  next
    case True
    then have "rq_Price req > 0" "rq_Quantity req \<ge> 1" by (auto simp: bind_order_request_def)
    with True show ?thesis
      by (cases lock_err; cases create_err)
        (simp_all add: CreateSellOrder_handler_def CreateSellOrder_def lockInventory_def
          unlockInventory_def create_order_def Let_def)
  qed
qed

theorem C3_validation_in_handlers_witness:
  "CreateBuyOrder_handler None 1
     \<lparr>rq_ItemID = 7, rq_Price = - 5, rq_Quantity = 1, rq_Platform = ''steam''\<rparr> db_empty =
     (BadRequest, db_empty) \<and>
   CreateSellOrder_handler None None 1
     \<lparr>rq_ItemID = 7, rq_Price = - 5, rq_Quantity = 1, rq_Platform = ''steam''\<rparr> db_empty =
     (BadRequest, db_empty)"
  using C3_validation_in_handlers
    [of "\<lparr>rq_ItemID = 7, rq_Price = - 5, rq_Quantity = 1, rq_Platform = ''steam''\<rparr>"
        None 1 db_empty None]
  by simp

text \<open>
  The claim as stated fails for the service functions themselves: called with the
  price -5 and the quantity 0, \<open>CreateBuyOrder\<close> stores a pending order with that
  price and quantity, and so does \<open>CreateSellOrder\<close> when the owner holds the item.
\<close>

theorem C3_service_accepts_invalid_counterexample:
  "orders (snd (CreateBuyOrder None 1 7 (- 5) 0 ''steam'' db_empty)) =
     [\<lparr>o_ID = 1, o_UserID = 1, o_ItemID = 7, o_Type = ''buy'', o_Status = ''pending'',
       o_Price = - 5, o_Quantity = 0, o_Platform = ''steam'', o_ExecutedAt = None,
       o_FailedReason = ''''\<rparr>] \<and>
   orders (snd (CreateSellOrder None None 1 7 (- 5) 0 ''steam'' (db_holding 1 False))) =
     [\<lparr>o_ID = 1, o_UserID = 1, o_ItemID = 7, o_Type = ''sell'', o_Status = ''pending'',
       o_Price = - 5, o_Quantity = 0, o_Platform = ''steam'', o_ExecutedAt = None,
       o_FailedReason = ''''\<rparr>]"
  by (simp add: CreateBuyOrder_def CreateSellOrder_def checkUserBalance_def checkInventory_def
      lockInventory_def create_order_def db_empty_def db_holding_def holding_def fresh_id_def
      Let_def)

text \<open>
  Claim C4. The transaction of a completed sell order is meant to carry the fee
  \<open>(p * q) * 0.025\<close> and the profit \<open>(p - b) * q - fee\<close>, \<open>b\<close> being the recorded
  buy price: 28 for one unit sold at 80 that was bought at 50. \<open>recordTransaction\<close>
  computes exactly this from the inventory it finds (28 on the database with the
  locked record), but \<open>executeSellOrder\<close> deletes the owner's records of the item
  before it calls \<open>recordTransaction\<close>: the buy price is read as 0, and the sale
  is recorded with the fee 2 and the profit 78.
\<close>

theorem C4_profit_ignores_buy_price:
  "CreateSellOrder None None 1 7 80 1 ''steam'' (db_holding 1 False) =
     (Inr (sell_order 1 ''steam'' ''pending''), db_pending) \<and>
   map i_BuyPrice (inventories db_pending) = [50] \<and>
   map t_Profit (transactions (recordTransaction 200 (sell_order 1 ''steam'' ''completed'')
     db_pending)) = [28] \<and>
   transactions (snd (executeSellOrder config_on 200 (sell_order 1 ''steam'' ''pending'')
     db_pending)) =
     [\<lparr>t_ID = 1, t_UserID = 1, t_OrderID = 1, t_Type = ''sell'', t_Amount = 80, t_Fee = 2,
       t_Profit = 78, t_Platform = ''steam'', t_CompletedAt = 200\<rparr>]"
proof -
  have a: "map i_BuyPrice (inventories db_pending) = [50]"
    by (simp add: db_pending_def holding_def)
  have b: "map t_Profit (transactions (recordTransaction 200
      (sell_order 1 ''steam'' ''completed'') db_pending)) = [28]"
    by (simp add: recordTransaction_def scan_buy_price_def db_pending_def sell_order_def
        holding_def fresh_id_def Let_def)
  have c: "transactions (snd (executeSellOrder config_on 200
      (sell_order 1 ''steam'' ''pending'') db_pending)) =
     [\<lparr>t_ID = 1, t_UserID = 1, t_OrderID = 1, t_Type = ''sell'', t_Amount = 80, t_Fee = 2,
       t_Profit = 78, t_Platform = ''steam'', t_CompletedAt = 200\<rparr>]"
    by (simp add: executeSellOrder_def executeSteamSell_def removeFromInventory_def
        recordTransaction_def scan_buy_price_def save_order_def db_pending_def sell_order_def
        holding_def fresh_id_def Let_def)
  from create_sell_pending a b c show ?thesis by blast
qed

text \<open>
  Claim C10. When \<open>executeSellOrder\<close> completes an order, no inventory record of the
  order's owner and item is left, whatever the quantity of the order and of the
  records was.
\<close>

theorem C10_completed_sell_removes_all_records:
  assumes "o_Status (fst (executeSellOrder config now order db)) = ''completed''"
  shows "filter (\<lambda>row. i_UserID row = o_UserID order \<and> i_ItemID row = o_ItemID order)
           (inventories (snd (executeSellOrder config now order db))) = []"
  unfolding executeSellOrder_completed [OF assms]
  by (simp add: removeFromInventory_def filter_empty_conv)

theorem C10_completed_sell_removes_all_records_witness:
  "o_Status (fst (executeSellOrder config_on 200 (sell_order 1 ''steam'' ''pending'')
      (db_holding 5 True))) = ''completed'' \<and>
   map i_Quantity (inventories (db_holding 5 True)) = [5] \<and>
   o_Quantity (sell_order 1 ''steam'' ''pending'') = 1 \<and>
   filter (\<lambda>row. i_UserID row = o_UserID (sell_order 1 ''steam'' ''pending'') \<and>
                  i_ItemID row = o_ItemID (sell_order 1 ''steam'' ''pending''))
     (inventories (snd (executeSellOrder config_on 200 (sell_order 1 ''steam'' ''pending'')
        (db_holding 5 True)))) = []"
proof -
  have h: "o_Status (fst (executeSellOrder config_on 200 (sell_order 1 ''steam'' ''pending'')
      (db_holding 5 True))) = ''completed''"
    by (simp add: executeSellOrder_def executeSteamSell_def sell_order_def Let_def)
  have q: "map i_Quantity (inventories (db_holding 5 True)) = [5]"
    "o_Quantity (sell_order 1 ''steam'' ''pending'') = 1"
    by (simp_all add: db_holding_def holding_def sell_order_def)
  from C10_completed_sell_removes_all_records [OF h] h q show ?thesis by blast
qed

subsection \<open>Broadcast hub\<close>

lemma broadcast_loop_result:
  assumes "distinct cs" and "list_all (\<lambda>c. \<not> ch_closed (h_send h c)) cs"
  shows "broadcast_loop message cs h =
           Inr (h\<lparr>h_send := (\<lambda>c. if c \<in> set cs then after_send message (h_send h c)
                                 else h_send h c),
                  h_clients := filter (\<lambda>c. c \<notin> set cs \<or> has_room h c) (h_clients h)\<rparr>)"
  using assms
proof (induction cs arbitrary: h)
  case Nil
  then show ?case by simp
next
  case (Cons c cs)
  from Cons.prems have open_c: "\<not> ch_closed (h_send h c)" and notin: "c \<notin> set cs"
    and d: "distinct cs" and open_cs: "list_all (\<lambda>x. \<not> ch_closed (h_send h x)) cs"
    by simp_all
  show ?case
  proof (cases "has_room h c")
    case True
    let ?h1 = "h\<lparr>h_send := (h_send h)(c := (h_send h c)\<lparr>ch_buf := ch_buf (h_send h c) @ [message]\<rparr>)\<rparr>"
    have o1: "list_all (\<lambda>x. \<not> ch_closed (h_send ?h1 x)) cs"
      using open_cs notin by (auto simp: list_all_iff)
    have r1: "has_room ?h1 x = has_room h x" if "x \<noteq> c" for x
      using that by (simp add: has_room_def)
    have f: "filter (\<lambda>x. x \<notin> set cs \<or> has_room ?h1 x) (h_clients h) =
             filter (\<lambda>x. (x \<noteq> c \<and> x \<notin> set cs) \<or> has_room h x) (h_clients h)"
      using True r1 notin by (intro filter_cong) (auto simp: has_room_def)
    have "broadcast_loop message (c # cs) h = broadcast_loop message cs ?h1"
      using True open_c by (simp add: try_send_def has_room_def)
    also have "\<dots> =
        Inr (?h1\<lparr>h_send := (\<lambda>x. if x \<in> set cs then after_send message (h_send ?h1 x)
                                 else h_send ?h1 x),
                  h_clients := filter (\<lambda>x. x \<notin> set cs \<or> has_room ?h1 x) (h_clients ?h1)\<rparr>)"
      by (rule Cons.IH [OF d o1])
    also have "\<dots> =
        Inr (h\<lparr>h_send := (\<lambda>x. if x \<in> set (c # cs) then after_send message (h_send h x)
                               else h_send h x),
                h_clients := filter (\<lambda>x. x \<notin> set (c # cs) \<or> has_room h x) (h_clients h)\<rparr>)"
      using True notin f by (auto simp: fun_eq_iff after_send_def has_room_def)
    finally show ?thesis .
  next
    case False
    let ?h1 = "h\<lparr>h_send := (h_send h)(c := (h_send h c)\<lparr>ch_closed := True\<rparr>),
                 h_clients := removeAll c (h_clients h)\<rparr>"
    have o1: "list_all (\<lambda>x. \<not> ch_closed (h_send ?h1 x)) cs"
      using open_cs notin by (auto simp: list_all_iff)
    have f: "filter (\<lambda>x. x \<notin> set cs \<or> has_room ?h1 x) (removeAll c (h_clients h)) =
             filter (\<lambda>x. (x \<noteq> c \<and> x \<notin> set cs) \<or> has_room h x) (h_clients h)"
      using False notin
      by (induction "h_clients h") (auto simp: has_room_def removeAll_filter_not_eq intro: filter_cong)
    have "broadcast_loop message (c # cs) h = broadcast_loop message cs ?h1"
      using False open_c by (simp add: try_send_def has_room_def close_chan_def)
    also have "\<dots> =
        Inr (?h1\<lparr>h_send := (\<lambda>x. if x \<in> set cs then after_send message (h_send ?h1 x)
                                 else h_send ?h1 x),
                  h_clients := filter (\<lambda>x. x \<notin> set cs \<or> has_room ?h1 x) (h_clients ?h1)\<rparr>)"
      by (rule Cons.IH [OF d o1])
    also have "\<dots> =
        Inr (h\<lparr>h_send := (\<lambda>x. if x \<in> set (c # cs) then after_send message (h_send h x)
                               else h_send h x),
                h_clients := filter (\<lambda>x. x \<notin> set (c # cs) \<or> has_room h x) (h_clients h)\<rparr>)"
      using False notin f by (auto simp: fun_eq_iff after_send_def has_room_def)
    finally show ?thesis .
  qed
qed

text \<open>
  The hub keeps its client set free of duplicates and the channel of every connected
  client open, provided a client that registers comes with an open channel (each does:
  it is created with a fresh one).
\<close>

lemma hub_step_keeps_channels_open:
  assumes "distinct (h_clients h)" and "list_all (\<lambda>c. \<not> ch_closed (h_send h c)) (h_clients h)"
    and "\<And>c. ev = Register c \<Longrightarrow> \<not> ch_closed (h_send h c)"
  shows "\<exists>h'. hub_step ev h = Inr h' \<and> distinct (h_clients h') \<and>
           list_all (\<lambda>c. \<not> ch_closed (h_send h' c)) (h_clients h')"
proof (cases ev)
  case (Register c)
  with assms show ?thesis by (auto simp: hub_step_def list_all_iff)
next
  case (Unregister c)
  with assms show ?thesis
    by (auto simp: hub_step_def list_all_iff close_chan_def distinct_removeAll)
next
  case (Broadcast message)
  with assms(1,2) show ?thesis
    by (auto simp: hub_step_def broadcast_loop_result list_all_iff after_send_def has_room_def)
qed

text \<open>
  Claim C9. A publish reaches \<open>Hub.Run\<close> as one value on \<open>broadcast\<close>. In a hub
  whose connected clients all have their channel open, handling it always returns
  (no send blocks, nothing panics), and for every connected client on its own: when
  the client's buffer has room the message is appended to it and the client stays
  connected; when the buffer is full the client's channel is closed and the client is
  removed from the connected set. Clients that are not connected are not touched.
\<close>

theorem C9_broadcast_fanout:
  assumes "distinct (h_clients h)"
    and "list_all (\<lambda>c. \<not> ch_closed (h_send h c)) (h_clients h)"
  shows "\<exists>h'. hub_step (Broadcast message) h = Inr h' \<and>
           h_clients h' = filter (has_room h) (h_clients h) \<and>
           (\<forall>c. h_send h' c =
              (if c \<in> set (h_clients h) then
                 (if has_room h c then (h_send h c)\<lparr>ch_buf := ch_buf (h_send h c) @ [message]\<rparr>
                  else (h_send h c)\<lparr>ch_closed := True\<rparr>)
               else h_send h c))"
proof -
  have "filter (\<lambda>c. c \<notin> set (h_clients h) \<or> has_room h c) (h_clients h) =
        filter (has_room h) (h_clients h)"
    by (intro filter_cong) auto
  then show ?thesis
    by (simp add: hub_step_def broadcast_loop_result [OF assms] after_send_def has_room_def)
qed

theorem C9_broadcast_fanout_witness:
  "distinct (h_clients hub_two) \<and>
   (\<exists>h'. hub_step (Broadcast ''price'') hub_two = Inr h' \<and>
      h_clients h' = [1] \<and>
      ch_buf (h_send h' 1) = [''price''] \<and> \<not> ch_closed (h_send h' 1) \<and>
      ch_closed (h_send h' 2))"
proof -
  have h1: "distinct (h_clients hub_two)" by (simp add: hub_two_def)
  have h2: "list_all (\<lambda>c. \<not> ch_closed (h_send hub_two c)) (h_clients hub_two)"
    by (simp add: hub_two_def make_send_chan_def)
  have r: "has_room hub_two 1" "\<not> has_room hub_two 2"
    by (simp_all add: has_room_def hub_two_def make_send_chan_def)
  from C9_broadcast_fanout [OF h1 h2, of "''price''"]
  obtain h' where w: "hub_step (Broadcast ''price'') hub_two = Inr h'"
    "h_clients h' = filter (has_room hub_two) (h_clients hub_two)"
    "\<And>c. h_send h' c =
       (if c \<in> set (h_clients hub_two) then
          (if has_room hub_two c
           then (h_send hub_two c)\<lparr>ch_buf := ch_buf (h_send hub_two c) @ [''price'']\<rparr>
           else (h_send hub_two c)\<lparr>ch_closed := True\<rparr>)
        else h_send hub_two c)"
    by blast
  have "h_clients h' = [1]" using w(2) r by (simp add: hub_two_def)
  moreover have "ch_buf (h_send h' 1) = [''price'']" "\<not> ch_closed (h_send h' 1)"
    unfolding w(3) using r by (simp_all add: hub_two_def make_send_chan_def)
  moreover have "ch_closed (h_send h' 2)"
    unfolding w(3) using r by (simp add: hub_two_def)
  ultimately show ?thesis using h1 w(1) by blast
qed

end
